theory Spec2Isabelle
  imports Main "HOL-Library.Char_ord" "HOL-Library.List_Lexorder"
begin

section \<open>pyiceberg/table/__init__.py: scan planning, transactions and schema evolution\<close>

text \<open>
  A shallow embedding of \<^verbatim>\<open>pyiceberg/table/__init__.py\<close>. Python methods become functions that
  take the object they are called on as an argument and return its new value; a leading
  underscore of a Python name is dropped (\<^verbatim>\<open>_open_manifest\<close> is \<open>open_manifest\<close>),
  and a field name shared by several classes carries the class as a prefix.
\<close>

subsection \<open>Exceptions\<close>

text \<open>
  Every \<^verbatim>\<open>raise\<close> of the source is a value \<open>Inl e\<close>. The source raises
  \<^verbatim>\<open>ValueError\<close> everywhere; the message (without the interpolated values) tells the raise
  statements apart. \<^verbatim>\<open>TypeError\<close>, \<^verbatim>\<open>IndexError\<close>, \<^verbatim>\<open>StopIteration\<close> and \<^verbatim>\<open>AttributeError\<close>
  are raised by the Python builtins and attribute reads the source uses,
  \<^verbatim>\<open>ValidationError\<close> by a constructor of \<^verbatim>\<open>pyiceberg.types\<close>.
\<close>

datatype error =
    ValueError string
  | TypeError string
  | IndexError
  | StopIteration
  | AttributeError
  | ValidationError string
  | CatalogError string

subsection \<open>Types, fields and schemas\<close>

text \<open>
  \<^verbatim>\<open>pyiceberg.types\<close> and \<^verbatim>\<open>pyiceberg.schema\<close> are only imported by the source. The
  datatypes hold what the source constructs and reads: a \<^verbatim>\<open>NestedField\<close> is built from
  \<^verbatim>\<open>field_id\<close>, \<^verbatim>\<open>name\<close>, \<^verbatim>\<open>field_type\<close>, \<^verbatim>\<open>required\<close>, \<^verbatim>\<open>doc\<close>; a \<^verbatim>\<open>ListType\<close> from
  \<^verbatim>\<open>element_id\<close>, \<^verbatim>\<open>element\<close>, \<^verbatim>\<open>element_required\<close>; a \<^verbatim>\<open>MapType\<close> from \<^verbatim>\<open>key_id\<close>,
  \<^verbatim>\<open>key_type\<close>, \<^verbatim>\<open>value_id\<close>, \<^verbatim>\<open>value_type\<close>, \<^verbatim>\<open>value_required\<close>; a \<^verbatim>\<open>StructType\<close> from
  its fields.
\<close>

datatype PrimitiveType =
    BooleanType | IntegerType | LongType | FloatType | DoubleType
  | DecimalType int int
  | DateType | TimeType | TimestampType | TimestamptzType
  | StringType | UUIDType | FixedType int | BinaryType

datatype IcebergType =
    Primitive PrimitiveType
  | StructType "NestedField list"
  | ListType int IcebergType bool
  | MapType int IcebergType int IcebergType bool
and NestedField =
    NestedField (field_id: int) (name: string) (field_type: IcebergType)
                (required: bool) (doc: "string option")

record Schema =
  schema_fields :: "NestedField list"
  schema_id :: int
  identifier_field_ids :: "int list"

subsection \<open>Manifests, manifest entries and data files\<close>

text \<open>
  The classes of \<^verbatim>\<open>pyiceberg.manifest\<close> are only imported by the source; the records below
  hold the attributes the source reads. \<open>fetch_manifest_entry\<close> is the list that
  \<^verbatim>\<open>manifest.fetch_manifest_entry(io, discard_deleted=True)\<close> returns. The source has an
  \<^verbatim>\<open>else\<close> branch for a content that is none of the three enum members;
  \<open>DataFileContent_unknown\<close> stands for such a value.
\<close>

datatype ManifestContent = ManifestContent_DATA | ManifestContent_DELETES

datatype DataFileContent =
    DataFileContent_DATA
  | DataFileContent_POSITION_DELETES
  | DataFileContent_EQUALITY_DELETES
  | DataFileContent_unknown

record DataFile =
  df_content :: DataFileContent
  file_path :: string
  file_size_in_bytes :: int
  lower_bound_file_path :: "string option"
  upper_bound_file_path :: "string option"

record ManifestEntry =
  data_sequence_number :: "int option"
  data_file :: DataFile

record ManifestFile =
  mf_content :: ManifestContent
  partition_spec_id :: int
  sequence_number :: "int option"
  min_sequence_number :: "int option"
  fetch_manifest_entry :: "ManifestEntry list"

text \<open>Modelled from the spec: \<^verbatim>\<open>INITIAL_SEQUENCE_NUMBER\<close> of \<^verbatim>\<open>pyiceberg.table.metadata\<close>
  is not among the source files; section 4.D gives its value, 0.\<close>

definition INITIAL_SEQUENCE_NUMBER :: int where
  "INITIAL_SEQUENCE_NUMBER = 0"

text \<open>Python's \<^verbatim>\<open>x or d\<close> on an \<^verbatim>\<open>Optional[int]\<close>: \<^verbatim>\<open>None\<close> and \<^verbatim>\<open>0\<close> are both falsy.\<close>

definition py_or :: "int option \<Rightarrow> int \<Rightarrow> int" where
  "py_or x d = (case x of None \<Rightarrow> d | Some v \<Rightarrow> if v = 0 then d else v)"

text \<open>Python's \<^verbatim>\<open>min\<close> over an iterable: \<^verbatim>\<open>ValueError\<close> when it is empty.\<close>

definition py_min :: "int list \<Rightarrow> error + int" where
  "py_min xs = (case xs of [] \<Rightarrow> Inl (ValueError ''min() arg is an empty sequence'')
                | x # rest \<Rightarrow> Inr (fold (\<lambda>y m. if y < m then y else m) rest x))"

definition min_data_file_sequence_number :: "ManifestFile list \<Rightarrow> int" where
  "min_data_file_sequence_number manifests =
     (case py_min (map (\<lambda>manifest. py_or (min_sequence_number manifest) INITIAL_SEQUENCE_NUMBER)
                     [manifest \<leftarrow> manifests. mf_content manifest = ManifestContent_DATA]) of
        Inr m \<Rightarrow> m
      | Inl e \<Rightarrow> INITIAL_SEQUENCE_NUMBER)"

definition check_sequence_number :: "int \<Rightarrow> ManifestFile \<Rightarrow> bool" where
  "check_sequence_number min_data_sequence_number manifest =
     (mf_content manifest = ManifestContent_DATA \<or>
      (mf_content manifest = ManifestContent_DELETES \<and>
       py_or (sequence_number manifest) INITIAL_SEQUENCE_NUMBER \<ge> min_data_sequence_number))"

definition open_manifest ::
  "ManifestFile \<Rightarrow> (DataFile \<Rightarrow> bool) \<Rightarrow> (DataFile \<Rightarrow> bool) \<Rightarrow> ManifestEntry list" where
  "open_manifest manifest partition_filter metrics_evaluator =
     [manifest_entry \<leftarrow> fetch_manifest_entry manifest.
        partition_filter (data_file manifest_entry) \<and> metrics_evaluator (data_file manifest_entry)]"


subsection \<open>Snapshots, table metadata and tables\<close>

text \<open>
  \<open>s_manifests\<close> is the list that \<^verbatim>\<open>snapshot.manifests(io)\<close> returns. \<open>refs\<close> is the
  dictionary \<^verbatim>\<open>metadata.refs\<close>. The file IO and the catalog of a table are not part of
  the record: the catalog is an argument of the functions that call it.
\<close>

record Snapshot =
  s_snapshot_id :: int
  s_schema_id :: "int option"
  s_manifests :: "ManifestFile list"

record SnapshotRef =
  r_snapshot_id :: int

record TableMetadata =
  schemas :: "Schema list"
  current_schema_id :: int
  snapshots :: "Snapshot list"
  current_snapshot_id :: "int option"
  refs :: "string \<rightharpoonup> SnapshotRef"

record Table =
  table_identifier :: "string list"
  metadata :: TableMetadata
  metadata_location :: string

text \<open>Truthiness of an \<^verbatim>\<open>Optional[int]\<close> in \<^verbatim>\<open>if x:\<close> and \<^verbatim>\<open>if x := ...:\<close>.\<close>

definition truthy :: "int option \<Rightarrow> bool" where
  "truthy x = (case x of None \<Rightarrow> False | Some v \<Rightarrow> v \<noteq> 0)"

text \<open>Python's \<^verbatim>\<open>next\<close> on a generator: its first element, \<^verbatim>\<open>StopIteration\<close> when there is none.\<close>

definition py_next :: "'a list \<Rightarrow> error + 'a" where
  "py_next xs = (case xs of [] \<Rightarrow> Inl StopIteration | x # rest \<Rightarrow> Inr x)"

definition Table_schema :: "Table \<Rightarrow> error + Schema" where
  "Table_schema self =
     py_next [schema \<leftarrow> schemas (metadata self). schema_id schema = current_schema_id (metadata self)]"

definition snapshot_by_id :: "Table \<Rightarrow> int \<Rightarrow> Snapshot option" where
  "snapshot_by_id self snapshot_id =
     (case py_next [snapshot \<leftarrow> snapshots (metadata self). s_snapshot_id snapshot = snapshot_id] of
        Inr snapshot \<Rightarrow> Some snapshot
      | Inl e \<Rightarrow> None)"

definition current_snapshot :: "Table \<Rightarrow> Snapshot option" where
  "current_snapshot self =
     (if truthy (current_snapshot_id (metadata self))
      then snapshot_by_id self (the (current_snapshot_id (metadata self)))
      else None)"

definition snapshot_by_name :: "Table \<Rightarrow> string \<Rightarrow> Snapshot option" where
  "snapshot_by_name self name' =
     (case refs (metadata self) name' of
        Some ref \<Rightarrow> snapshot_by_id self (r_snapshot_id ref)
      | None \<Rightarrow> None)"

subsection \<open>Table updates, requirements and commit requests\<close>

text \<open>
  One constructor for each subclass of \<^verbatim>\<open>TableUpdate\<close> and of \<^verbatim>\<open>TableRequirement\<close>, with
  the fields of the class. \<^verbatim>\<open>PartitionSpec\<close> and \<^verbatim>\<open>SortOrder\<close> are only imported by the
  source and are kept as their ids.
\<close>

datatype TableUpdateAction =
    upgrade_format_version | add_schema | set_current_schema | add_spec | set_default_spec
  | add_sort_order | set_default_sort_order | add_snapshot | set_snapshot_ref
  | remove_snapshots | remove_snapshot_ref | set_location | set_properties | remove_properties

datatype PartitionSpec = PartitionSpec (spec_id: int)

datatype SortOrder = SortOrder (order_id: int)

datatype TableUpdate =
    UpgradeFormatVersionUpdate int
  | AddSchemaUpdate Schema int
  | SetCurrentSchemaUpdate int
  | AddPartitionSpecUpdate PartitionSpec
  | SetDefaultSpecUpdate int
  | AddSortOrderUpdate SortOrder
  | SetDefaultSortOrderUpdate int
  | AddSnapshotUpdate Snapshot
  | SetSnapshotRefUpdate string string int int int int
  | RemoveSnapshotsUpdate "int list"
  | RemoveSnapshotRefUpdate string
  | SetLocationUpdate string
  | SetPropertiesUpdate "(string \<times> string) list"
  | RemovePropertiesUpdate "string list"

datatype TableRequirement =
    AssertCreate
  | AssertTableUUID string
  | AssertRefSnapshotId string int
  | AssertLastAssignedFieldId int
  | AssertCurrentSchemaId int
  | AssertLastAssignedPartitionId int
  | AssertDefaultSpecId int
  | AssertDefaultSortOrderId int

text \<open>\<^verbatim>\<open>type(update)\<close>: the class of an update, named by the action that the class sets;
  \<^verbatim>\<open>type(requirement)\<close>: the class of a requirement, named by its \<^verbatim>\<open>type\<close> literal.\<close>

fun type_of_update :: "TableUpdate \<Rightarrow> TableUpdateAction" where
  "type_of_update (UpgradeFormatVersionUpdate v) = upgrade_format_version"
| "type_of_update (AddSchemaUpdate s l) = add_schema"
| "type_of_update (SetCurrentSchemaUpdate i) = set_current_schema"
| "type_of_update (AddPartitionSpecUpdate p) = add_spec"
| "type_of_update (SetDefaultSpecUpdate i) = set_default_spec"
| "type_of_update (AddSortOrderUpdate so) = add_sort_order"
| "type_of_update (SetDefaultSortOrderUpdate i) = set_default_sort_order"
| "type_of_update (AddSnapshotUpdate sn) = add_snapshot"
| "type_of_update (SetSnapshotRefUpdate n t i a b c) = set_snapshot_ref"
| "type_of_update (RemoveSnapshotsUpdate is) = remove_snapshots"
| "type_of_update (RemoveSnapshotRefUpdate n) = remove_snapshot_ref"
| "type_of_update (SetLocationUpdate l) = set_location"
| "type_of_update (SetPropertiesUpdate ps) = set_properties"
| "type_of_update (RemovePropertiesUpdate rs) = remove_properties"

fun type_of_requirement :: "TableRequirement \<Rightarrow> string" where
  "type_of_requirement AssertCreate = ''assert-create''"
| "type_of_requirement (AssertTableUUID u) = ''assert-table-uuid''"
| "type_of_requirement (AssertRefSnapshotId r i) = ''assert-ref-snapshot-id''"
| "type_of_requirement (AssertLastAssignedFieldId i) = ''assert-last-assigned-field-id''"
| "type_of_requirement (AssertCurrentSchemaId i) = ''assert-current-schema-id''"
| "type_of_requirement (AssertLastAssignedPartitionId i) = ''assert-last-assigned-partition-id''"
| "type_of_requirement (AssertDefaultSpecId i) = ''assert-default-spec-id''"
| "type_of_requirement (AssertDefaultSortOrderId i) = ''assert-default-sort-order-id''"

record CommitTableRequest =
  req_identifier :: "string list"
  req_requirements :: "TableRequirement list"
  req_updates :: "TableUpdate list"

record CommitTableResponse =
  resp_metadata :: TableMetadata
  resp_metadata_location :: string

text \<open>
  The catalog is outside the source: \<^verbatim>\<open>catalog._commit_table\<close> is a function from the
  request to an exception or a response, and the list of the requests it has received
  (its log) is threaded through every function that can call it.
\<close>

type_synonym catalog = "CommitTableRequest \<Rightarrow> error + CommitTableResponse"

definition do_commit ::
  "catalog \<Rightarrow> CommitTableRequest \<Rightarrow> Table \<Rightarrow> CommitTableRequest list
     \<Rightarrow> error option \<times> Table \<times> CommitTableRequest list" where
  "do_commit commit_table request self log =
     (case commit_table request of
        Inl e \<Rightarrow> (Some e, self, log @ [request])
      | Inr response \<Rightarrow>
          (None,
           self\<lparr>metadata := resp_metadata response,
                metadata_location := resp_metadata_location response\<rparr>,
           log @ [request]))"

subsection \<open>Transaction\<close>

text \<open>
  A method that assigns to \<^verbatim>\<open>self\<close> returns the exception, if one is raised, and the
  object as it is after the call.
\<close>

record Transaction =
  t_table :: Table
  t_updates :: "TableUpdate list"
  t_requirements :: "TableRequirement list"

definition Transaction_init ::
  "Table \<Rightarrow> TableUpdate list option \<Rightarrow> TableRequirement list option \<Rightarrow> Transaction" where
  "Transaction_init table' actions requirements =
     \<lparr>t_table = table',
      t_updates = (case actions of None \<Rightarrow> [] | Some a \<Rightarrow> a),
      t_requirements = (case requirements of None \<Rightarrow> [] | Some r \<Rightarrow> r)\<rparr>"

definition append_updates :: "TableUpdate list \<Rightarrow> Transaction \<Rightarrow> error option \<times> Transaction" where
  "append_updates new_updates self =
     (if list_ex (\<lambda>new_update.
            list_ex (\<lambda>update. type_of_update update = type_of_update new_update) (t_updates self))
          new_updates
      then (Some (ValueError ''Updates in a single commit need to be unique, duplicate''), self)
      else (None, self\<lparr>t_updates := t_updates self @ new_updates\<rparr>))"

text \<open>In \<^verbatim>\<open>_append_requirements\<close> the generator compares \<^verbatim>\<open>type(requirement)\<close>, the type of
  the new requirement, with \<^verbatim>\<open>type_new_requirement\<close>; the loop variable \<^verbatim>\<open>update\<close> that runs
  over the staged requirements is not used.\<close>

definition append_requirements ::
  "TableRequirement list \<Rightarrow> Transaction \<Rightarrow> error option \<times> Transaction" where
  "append_requirements new_requirements self =
     (if list_ex (\<lambda>requirement.
            list_ex (\<lambda>update. type_of_requirement requirement = type_of_requirement requirement)
              (t_requirements self))
          new_requirements
      then (Some (ValueError ''Requirements in a single commit need to be unique, duplicate''), self)
      else (None, self\<lparr>t_requirements := t_requirements self @ new_requirements\<rparr>))"

definition set_properties :: "(string \<times> string) list \<Rightarrow> Transaction \<Rightarrow> error option \<times> Transaction" where
  "set_properties updates self = append_updates [SetPropertiesUpdate updates] self"

definition remove_properties_txn :: "string list \<Rightarrow> Transaction \<Rightarrow> error option \<times> Transaction" where
  "remove_properties_txn removals self = append_updates [RemovePropertiesUpdate removals] self"

text \<open>\<^verbatim>\<open>commit_transaction\<close> returns \<^verbatim>\<open>self._table\<close>, which \<^verbatim>\<open>_do_commit\<close> has updated in place;
  the result is the exception or that table, together with the catalog's log.\<close>

definition commit_transaction ::
  "catalog \<Rightarrow> Transaction \<Rightarrow> CommitTableRequest list \<Rightarrow> (error + Table) \<times> CommitTableRequest list" where
  "commit_transaction commit_table self log =
     (if length (t_updates self) > 0
      then (case do_commit commit_table
                   \<lparr>req_identifier = drop 1 (table_identifier (t_table self)),
                    req_requirements = t_requirements self,
                    req_updates = t_updates self\<rparr>
                   (t_table self) log of
              (Some e, table', log') \<Rightarrow> (Inl e, log')
            | (None, table', log') \<Rightarrow> (Inr table', log'))
      else (Inr (t_table self), log))"


subsection \<open>Table scans\<close>

text \<open>
  \<^verbatim>\<open>pyiceberg.expressions\<close> is only imported by the source: an expression is a tree over
  atomic predicates that are kept as text. The call \<^verbatim>\<open>And(a, b)\<close>, which need not return
  the node \<open>And a b\<close>, is an argument of the model (\<open>and_expr\<close> below). A filter
  argument is a string or an expression.
\<close>

datatype BooleanExpression =
    AlwaysTrue
  | AlwaysFalse
  | Predicate string
  | Not BooleanExpression
  | And BooleanExpression BooleanExpression
  | Or BooleanExpression BooleanExpression

datatype filter_arg = Str string | Expr BooleanExpression

text \<open>
  The attributes that \<^verbatim>\<open>TableScan.__init__\<close> sets. \<open>partition_filters_cached\<close> says
  whether the instance's \<^verbatim>\<open>__dict__\<close> also holds \<^verbatim>\<open>partition_filters\<close>:
  \<^verbatim>\<open>DataScan.partition_filters\<close> is a \<^verbatim>\<open>functools.cached_property\<close>, which stores its value
  under that name in the instance's \<^verbatim>\<open>__dict__\<close> when it is first read.
\<close>

record DataScan =
  table :: Table
  row_filter :: BooleanExpression
  selected_fields :: "string list"
  case_sensitive :: bool
  snapshot_id :: "int option"
  options :: "(string \<times> string) list"
  limit :: "int option"
  partition_filters_cached :: bool

text \<open>
  What the scan calls outside the source: the expression parser
  (\<^verbatim>\<open>parser.parse\<close>), the call \<^verbatim>\<open>And(left, right)\<close>, the evaluators that \<^verbatim>\<open>visitors.manifest_evaluator\<close>,
  \<^verbatim>\<open>visitors.expression_evaluator\<close> and \<^verbatim>\<open>_InclusiveMetricsEvaluator\<close> build for a scan, and
  the evaluator \<^verbatim>\<open>_InclusiveMetricsEvaluator(POSITIONAL_DELETE_SCHEMA, EqualTo("file_path", p)).eval\<close>
  for a path \<open>p\<close>. They are arguments of the model.
\<close>

record planner_env =
  parse :: "string \<Rightarrow> error + BooleanExpression"
  and_expr :: "BooleanExpression \<Rightarrow> BooleanExpression \<Rightarrow> BooleanExpression"
  manifest_evaluator :: "DataScan \<Rightarrow> int \<Rightarrow> ManifestFile \<Rightarrow> bool"
  partition_evaluator :: "DataScan \<Rightarrow> int \<Rightarrow> DataFile \<Rightarrow> bool"
  inclusive_metrics_evaluator :: "DataScan \<Rightarrow> bool \<Rightarrow> DataFile \<Rightarrow> bool"
  file_path_evaluator :: "string \<Rightarrow> DataFile \<Rightarrow> bool"

definition parse_row_filter :: "planner_env \<Rightarrow> filter_arg \<Rightarrow> error + BooleanExpression" where
  "parse_row_filter env expr = (case expr of Str s \<Rightarrow> parse env s | Expr e \<Rightarrow> Inr e)"

definition TableScan_init ::
  "planner_env \<Rightarrow> Table \<Rightarrow> filter_arg \<Rightarrow> string list \<Rightarrow> bool \<Rightarrow> int option
     \<Rightarrow> (string \<times> string) list \<Rightarrow> int option \<Rightarrow> error + DataScan" where
  "TableScan_init env table' row_filter' selected_fields' case_sensitive' snapshot_id' options' limit' =
     (case parse_row_filter env row_filter' of
        Inl e \<Rightarrow> Inl e
      | Inr parsed \<Rightarrow>
          Inr \<lparr>table = table', row_filter = parsed, selected_fields = selected_fields',
               case_sensitive = case_sensitive', snapshot_id = snapshot_id',
               options = options', limit = limit', partition_filters_cached = False\<rparr>)"

text \<open>\<^verbatim>\<open>Table.scan()\<close> with its default arguments.\<close>

definition scan :: "Table \<Rightarrow> DataScan" where
  "scan self =
     \<lparr>table = self, row_filter = AlwaysTrue, selected_fields = [''*''],
      case_sensitive = True, snapshot_id = None, options = [], limit = None,
      partition_filters_cached = False\<rparr>"

definition snapshot :: "DataScan \<Rightarrow> Snapshot option" where
  "snapshot self =
     (if truthy (snapshot_id self)
      then snapshot_by_id (table self) (the (snapshot_id self))
      else current_snapshot (table self))"

text \<open>
  \<^verbatim>\<open>update\<close> calls \<^verbatim>\<open>type(self)(**{**self.__dict__, **overrides})\<close>. The overrides are the
  function that sets the overridden attributes. \<^verbatim>\<open>DataScan.__init__\<close> takes the seven
  attributes of \<^verbatim>\<open>TableScan.__init__\<close> and no other keyword, so the call raises
  \<^verbatim>\<open>TypeError\<close> when \<^verbatim>\<open>__dict__\<close> holds \<^verbatim>\<open>partition_filters\<close>. Every caller in the source
  passes a row filter that is an expression already, which \<^verbatim>\<open>_parse_row_filter\<close> returns
  as it is.
\<close>

definition update :: "(DataScan \<Rightarrow> DataScan) \<Rightarrow> DataScan \<Rightarrow> error + DataScan" where
  "update overrides self =
     (if partition_filters_cached self
      then Inl (TypeError ''__init__() got an unexpected keyword argument partition_filters'')
      else Inr (overrides self))"

definition use_ref :: "string \<Rightarrow> DataScan \<Rightarrow> error + DataScan" where
  "use_ref name' self =
     (if truthy (snapshot_id self)
      then Inl (ValueError ''Cannot override ref, already set snapshot id'')
      else (case snapshot_by_name (table self) name' of
              Some snapshot' \<Rightarrow> update (\<lambda>s. s\<lparr>snapshot_id := Some (s_snapshot_id snapshot')\<rparr>) self
            | None \<Rightarrow> Inl (ValueError ''Cannot scan unknown ref'')))"

definition filter_scan :: "planner_env \<Rightarrow> filter_arg \<Rightarrow> DataScan \<Rightarrow> error + DataScan" where
  "filter_scan env expr self =
     (case parse_row_filter env expr of
        Inl e \<Rightarrow> Inl e
      | Inr parsed \<Rightarrow>
          update (\<lambda>s. s\<lparr>row_filter := and_expr env (row_filter self) parsed\<rparr>) self)"

definition with_case_sensitive :: "bool \<Rightarrow> DataScan \<Rightarrow> error + DataScan" where
  "with_case_sensitive case_sensitive' self = update (\<lambda>s. s\<lparr>case_sensitive := case_sensitive'\<rparr>) self"

subsection \<open>Planning\<close>

record FileScanTask =
  task_file :: DataFile
  delete_files :: "DataFile set"
  start :: int
  task_length :: int

definition FileScanTask_init ::
  "DataFile \<Rightarrow> DataFile set option \<Rightarrow> int option \<Rightarrow> int option \<Rightarrow> FileScanTask" where
  "FileScanTask_init data_file' delete_files' start' length' =
     \<lparr>task_file = data_file',
      delete_files = (case delete_files' of None \<Rightarrow> {} | Some d \<Rightarrow> d),
      start = py_or start' 0,
      task_length = py_or length' (file_size_in_bytes data_file')\<rparr>"

text \<open>
  \<^verbatim>\<open>sortedcontainers.SortedList\<close> with a key: \<^verbatim>\<open>add\<close> inserts a value after the values whose
  key is not greater, so the list stays ascending by key; \<^verbatim>\<open>bisect_right\<close> returns the
  index after the last value whose key is not greater than the key of its argument,
  which on an ascending list is the number of leading values with such a key.
\<close>

definition entry_key :: "ManifestEntry \<Rightarrow> int" where
  "entry_key entry = py_or (data_sequence_number entry) INITIAL_SEQUENCE_NUMBER"

fun SortedList_add :: "('a \<Rightarrow> int) \<Rightarrow> 'a \<Rightarrow> 'a list \<Rightarrow> 'a list" where
  "SortedList_add key x [] = [x]"
| "SortedList_add key x (y # ys) =
     (if key x < key y then x # y # ys else y # SortedList_add key x ys)"

fun bisect_right :: "('a \<Rightarrow> int) \<Rightarrow> 'a list \<Rightarrow> 'a \<Rightarrow> nat" where
  "bisect_right key [] x = 0"
| "bisect_right key (y # ys) x =
     (if key y \<le> key x then Suc (bisect_right key ys x) else 0)"

text \<open>
  A Python set of data files. \<^verbatim>\<open>DataFile\<close> of \<^verbatim>\<open>pyiceberg.manifest\<close>, outside the source,
  hashes and compares by \<^verbatim>\<open>file_path\<close>, so the set built by the comprehension keeps, of
  the files with one path, the first that is added.
\<close>

definition py_set_of_files :: "DataFile list \<Rightarrow> DataFile set" where
  "py_set_of_files files =
     set (fold (\<lambda>f kept. if file_path f \<in> file_path ` set kept then kept else kept @ [f])
            files [])"

definition match_deletes_to_datafile ::
  "planner_env \<Rightarrow> ManifestEntry \<Rightarrow> ManifestEntry list \<Rightarrow> DataFile set" where
  "match_deletes_to_datafile env data_entry positional_delete_entries =
     (let relevant_entries =
            drop (bisect_right entry_key positional_delete_entries data_entry) positional_delete_entries
      in if length relevant_entries > 0
         then py_set_of_files
                (map data_file
                   [positional_delete_entry \<leftarrow> relevant_entries.
                      file_path_evaluator env (file_path (data_file data_entry))
                        (data_file positional_delete_entry)])
         else {})"

text \<open>The loop of \<^verbatim>\<open>plan_files\<close> over the manifest entries, with the two collections it
  fills as accumulator.\<close>

fun collect_entries ::
  "ManifestEntry list \<Rightarrow> ManifestEntry list \<Rightarrow> ManifestEntry list
     \<Rightarrow> error + (ManifestEntry list \<times> ManifestEntry list)" where
  "collect_entries [] data_entries positional_delete_entries =
     Inr (data_entries, positional_delete_entries)"
| "collect_entries (manifest_entry # rest) data_entries positional_delete_entries =
     (if df_content (data_file manifest_entry) = DataFileContent_DATA
      then collect_entries rest (data_entries @ [manifest_entry]) positional_delete_entries
      else if df_content (data_file manifest_entry) = DataFileContent_POSITION_DELETES
      then collect_entries rest data_entries
             (SortedList_add entry_key manifest_entry positional_delete_entries)
      else if df_content (data_file manifest_entry) = DataFileContent_EQUALITY_DELETES
      then Inl (ValueError ''PyIceberg does not yet support equality deletes: https://github.com/apache/iceberg/issues/6568'')
      else Inl (ValueError ''Unknown DataFileContent''))"

text \<open>The manifests that pass the manifest evaluator of their spec (step 1), and the
  entries that \<^verbatim>\<open>_open_manifest\<close> returns for the manifests that pass
  \<^verbatim>\<open>_check_sequence_number\<close>, in the order of \<^verbatim>\<open>executor.map\<close> and \<^verbatim>\<open>chain\<close> (step 2).\<close>

definition pruned_manifests :: "planner_env \<Rightarrow> DataScan \<Rightarrow> Snapshot \<Rightarrow> ManifestFile list" where
  "pruned_manifests env self snapshot' =
     [manifest_file \<leftarrow> s_manifests snapshot'.
        manifest_evaluator env self (partition_spec_id manifest_file) manifest_file]"

definition retained_manifests :: "ManifestFile list \<Rightarrow> ManifestFile list" where
  "retained_manifests manifests =
     [manifest \<leftarrow> manifests.
        check_sequence_number (min_data_file_sequence_number manifests) manifest]"

definition surviving_entries :: "planner_env \<Rightarrow> DataScan \<Rightarrow> ManifestFile list \<Rightarrow> ManifestEntry list" where
  "surviving_entries env self manifests =
     concat (map (\<lambda>manifest.
                    open_manifest manifest
                      (partition_evaluator env self (partition_spec_id manifest))
                      (inclusive_metrics_evaluator env self
                         (map_of (options self) ''include_empty_files'' = Some ''true'')))
               (retained_manifests manifests))"

definition plan_files :: "planner_env \<Rightarrow> DataScan \<Rightarrow> error + FileScanTask list" where
  "plan_files env self =
     (case snapshot self of
        None \<Rightarrow> Inr []
      | Some snapshot' \<Rightarrow>
          (case collect_entries (surviving_entries env self (pruned_manifests env self snapshot')) [] [] of
             Inl e \<Rightarrow> Inl e
           | Inr (data_entries, positional_delete_entries) \<Rightarrow>
               Inr (map (\<lambda>data_entry.
                           FileScanTask_init (data_file data_entry)
                             (Some (match_deletes_to_datafile env data_entry positional_delete_entries))
                             None None)
                      data_entries)))"

text \<open>The scan object after \<^verbatim>\<open>plan_files\<close>: building the manifest evaluator for the first
  manifest of the snapshot reads \<^verbatim>\<open>self.partition_filters\<close>.\<close>

definition after_plan_files :: "DataScan \<Rightarrow> DataScan" where
  "after_plan_files self =
     (case snapshot self of
        None \<Rightarrow> self
      | Some snapshot' \<Rightarrow>
          if s_manifests snapshot' = [] then self else self\<lparr>partition_filters_cached := True\<rparr>)"


subsection \<open>The schema engine that the source calls\<close>

text \<open>Modelled from the spec: \<^verbatim>\<open>Schema.find_field\<close> of \<^verbatim>\<open>pyiceberg.schema\<close> is not among the
  source files. Section 4.E: lookup by dotted path through struct, list and map descent;
  a list descends into its element field, a map into its value field, map keys are not
  addressable. It raises \<^verbatim>\<open>ValueError\<close> when the path names no field.\<close>

fun split_on :: "char \<Rightarrow> string \<Rightarrow> string list" where
  "split_on c [] = [] # []"
| "split_on c (x # xs) =
     (if x = c then [] # split_on c xs
      else (case split_on c xs of [] \<Rightarrow> [x] # [] | w # ws \<Rightarrow> (x # w) # ws))"

definition lower_char :: "char \<Rightarrow> char" where
  "lower_char c =
     (let n = (of_char c :: nat) in if 65 \<le> n \<and> n \<le> 90 then char_of (n + 32) else c)"

definition same_name :: "bool \<Rightarrow> string \<Rightarrow> string \<Rightarrow> bool" where
  "same_name case_sensitive' a b =
     (if case_sensitive' then a = b else map lower_char a = map lower_char b)"

fun descend :: "IcebergType \<Rightarrow> NestedField list" where
  "descend (Primitive p) = []"
| "descend (StructType fields') = fields'"
| "descend (ListType element_id element element_required) = descend element"
| "descend (MapType key_id key_type value_id value_type value_required) = descend value_type"

fun find_path :: "bool \<Rightarrow> NestedField list \<Rightarrow> string list \<Rightarrow> NestedField option" where
  "find_path case_sensitive' fields' [] = None"
| "find_path case_sensitive' fields' (segment # segments) =
     (case find (\<lambda>f. same_name case_sensitive' (name f) segment) fields' of
        None \<Rightarrow> None
      | Some f \<Rightarrow>
          if segments = [] then Some f
          else find_path case_sensitive' (descend (field_type f)) segments)"

definition find_field :: "Schema \<Rightarrow> string \<Rightarrow> bool \<Rightarrow> error + NestedField" where
  "find_field schema name' case_sensitive' =
     (case find_path case_sensitive' (schema_fields schema) (split_on CHR ''.'' name') of
        None \<Rightarrow> Inl (ValueError ''Could not find field with name'')
      | Some f \<Rightarrow> Inr f)"

text \<open>Modelled from the spec: \<^verbatim>\<open>Schema.highest_field_id\<close> is not among the source files.
  Section 4.E: the maximum of all ids in the tree (0 for a schema without fields').\<close>

fun ids_of_type :: "IcebergType \<Rightarrow> int list"
and ids_of_fields :: "NestedField list \<Rightarrow> int list" where
  "ids_of_type (Primitive p) = []"
| "ids_of_type (StructType fields') = ids_of_fields fields'"
| "ids_of_type (ListType element_id element element_required) = element_id # ids_of_type element"
| "ids_of_type (MapType key_id key_type value_id value_type value_required) =
     key_id # value_id # ids_of_type key_type @ ids_of_type value_type"
| "ids_of_fields [] = []"
| "ids_of_fields (NestedField i n t r d # fields') = i # ids_of_type t @ ids_of_fields fields'"

definition highest_field_id :: "Schema \<Rightarrow> int" where
  "highest_field_id schema = fold max (ids_of_fields (schema_fields schema)) 0"

text \<open>Modelled from the spec: \<^verbatim>\<open>Schema.column_names\<close> is not among the source files; the
  names of the columns of the schema, from which the builder takes its
  \<^verbatim>\<open>identifier_field_names\<close> (section 4.F, staged state).\<close>

definition column_names :: "Schema \<Rightarrow> string list" where
  "column_names schema = map name (schema_fields schema)"

text \<open>Modelled from the spec: the constructor \<^verbatim>\<open>Schema(*fields)\<close> is not among the source
  files. Section 3: a schema carries a schema id that is assigned when it is installed
  (0 until then) and a list of identifier field ids.\<close>

definition Schema_init :: "NestedField list \<Rightarrow> Schema" where
  "Schema_init fields' = \<lparr>schema_fields = fields', schema_id = 0, identifier_field_ids = []\<rparr>"

text \<open>Modelled from the spec: \<^verbatim>\<open>assign_fresh_schema_ids\<close> is not among the source files.
  Section 4.E: a structurally identical type with fresh ids from the allocator. The
  allocator is the counter, which is returned with the type. The fields' of a struct take
  their ids before the types of the fields' are visited.\<close>

fun fresh_type :: "IcebergType \<Rightarrow> int \<Rightarrow> IcebergType \<times> int"
and fresh_fields :: "NestedField list \<Rightarrow> int \<Rightarrow> int \<Rightarrow> NestedField list \<times> int" where
  "fresh_type (Primitive p) counter = (Primitive p, counter)"
| "fresh_type (StructType fields') counter =
     (case fresh_fields fields' counter (counter + int (length fields')) of
        (fields', counter') \<Rightarrow> (StructType fields', counter'))"
| "fresh_type (ListType element_id element element_required) counter =
     (case fresh_type element (counter + 1) of
        (element', counter') \<Rightarrow> (ListType counter element' element_required, counter'))"
| "fresh_type (MapType key_id key_type value_id value_type value_required) counter =
     (case fresh_type key_type (counter + 2) of
        (key_type', counter') \<Rightarrow>
          (case fresh_type value_type counter' of
             (value_type', counter'') \<Rightarrow>
               (MapType counter key_type' (counter + 1) value_type' value_required, counter'')))"
| "fresh_fields [] next_id counter = ([], counter)"
| "fresh_fields (NestedField i n t r d # fields') next_id counter =
     (case fresh_type t counter of
        (t', counter') \<Rightarrow>
          (case fresh_fields fields' (next_id + 1) counter' of
             (fields', counter'') \<Rightarrow> (NestedField next_id n t' r d # fields', counter'')))"

definition assign_fresh_schema_ids :: "IcebergType \<Rightarrow> int \<Rightarrow> IcebergType \<times> int" where
  "assign_fresh_schema_ids field_type' counter = fresh_type field_type' counter"


subsection \<open>Applying staged changes: \<^verbatim>\<open>_ApplyChanges\<close> and its helpers\<close>

datatype MoveOperation = First | Before | After

record Move =
  move_field_id :: int
  op :: MoveOperation
  other_field_id :: "int option"

definition TABLE_ROOT_ID :: int where
  "TABLE_ROOT_ID = - 1"

text \<open>
  Python's \<^verbatim>\<open>tuple(*args)\<close>, which \<^verbatim>\<open>_add_fields\<close> calls with the fields and the added
  fields as separate positional arguments. \<^verbatim>\<open>tuple\<close> takes at most one argument and raises
  \<^verbatim>\<open>TypeError\<close> for two or more. With no argument it is the empty tuple. With one
  argument, a \<^verbatim>\<open>NestedField\<close>, it iterates over that object: a \<^verbatim>\<open>NestedField\<close> is a pydantic
  model, whose iteration yields its (attribute name, value) pairs, so the result is a
  tuple of pairs and not a tuple of fields.
\<close>

datatype py_tuple = TupleOfFields "NestedField list" | TupleOfAttributePairs NestedField

definition py_tuple_of_args :: "NestedField list \<Rightarrow> error + py_tuple" where
  "py_tuple_of_args args =
     (case args of
        [] \<Rightarrow> Inr (TupleOfFields [])
      | [x] \<Rightarrow> Inr (TupleOfAttributePairs x)
      | x # y # rest \<Rightarrow> Inl (TypeError ''tuple expected at most 1 argument''))"

definition add_fields ::
  "NestedField list \<Rightarrow> NestedField list option \<Rightarrow> error + py_tuple option" where
  "add_fields fields' adds =
     (let adds' = (case adds of None \<Rightarrow> [] | Some a \<Rightarrow> a)
      in if length adds' = 0 then Inr None
         else (case py_tuple_of_args (fields' @ adds') of
                 Inl e \<Rightarrow> Inl e
               | Inr t \<Rightarrow> Inr (Some t)))"

text \<open>
  \<^verbatim>\<open>if new_fields := ...: return StructType(*new_fields)\<close>: \<^verbatim>\<open>None\<close> and the empty tuple are
  falsy. The constructor \<^verbatim>\<open>StructType\<close> is outside the source; called with attribute pairs
  in place of fields, the validation of its \<^verbatim>\<open>fields\<close> rejects them.
\<close>

definition struct_of_new_fields ::
  "py_tuple option \<Rightarrow> IcebergType option \<Rightarrow> error + IcebergType option" where
  "struct_of_new_fields new_fields otherwise =
     (case new_fields of
        None \<Rightarrow> Inr otherwise
      | Some (TupleOfFields fields') \<Rightarrow>
          if fields' \<noteq> [] then Inr (Some (StructType fields')) else Inr otherwise
      | Some (TupleOfAttributePairs x) \<Rightarrow>
          Inl (ValidationError ''StructType: fields are not instances of NestedField''))"

text \<open>\<^verbatim>\<open>next(i for i, field in enumerate(reordered) if field.field_id == other_field_id)\<close>.\<close>

fun position_of :: "int option \<Rightarrow> NestedField list \<Rightarrow> nat \<Rightarrow> error + nat" where
  "position_of other [] i = Inl StopIteration"
| "position_of other (f # rest) i =
     (if Some (field_id f) = other then Inr i else position_of other rest (Suc i))"

fun move_fields :: "NestedField list \<Rightarrow> Move list \<Rightarrow> error + NestedField list" where
  "move_fields reordered [] = Inr reordered"
| "move_fields reordered (move # moves) =
     (case py_next [f \<leftarrow> reordered. field_id f = move_field_id move] of
        Inl e \<Rightarrow> Inl e
      | Inr field' \<Rightarrow>
          (let reordered' = [f \<leftarrow> reordered. field_id f \<noteq> move_field_id move]
           in case op move of
                First \<Rightarrow> move_fields (field' # reordered') moves
              | Before \<Rightarrow>
                  (case position_of (other_field_id move) reordered' 0 of
                     Inl e \<Rightarrow> Inl e
                   | Inr other_field_pos \<Rightarrow>
                       move_fields (take other_field_pos reordered' @ [field'] @
                                    drop other_field_pos reordered') moves)
              | After \<Rightarrow>
                  (case position_of (other_field_id move) reordered' 0 of
                     Inl e \<Rightarrow> Inl e
                   | Inr other_field_pos \<Rightarrow>
                       move_fields (take (other_field_pos + 1) reordered' @ [field'] @
                                    drop (other_field_pos + 1) reordered') moves)))"

text \<open>In \<^verbatim>\<open>_move_fields\<close> on a tuple of attribute pairs, the first move reads
  \<^verbatim>\<open>field.field_id\<close> of a pair, which raises \<^verbatim>\<open>AttributeError\<close>.\<close>

definition add_and_move_fields ::
  "NestedField list \<Rightarrow> NestedField list \<Rightarrow> Move list \<Rightarrow> error + py_tuple option" where
  "add_and_move_fields fields' adds moves' =
     (if adds \<noteq> []
      then (case add_fields fields' (Some adds) of
              Inl e \<Rightarrow> Inl e
            | Inr added \<Rightarrow>
                if moves' \<noteq> []
                then (case added of
                        None \<Rightarrow> Inl (TypeError ''NoneType object is not iterable'')
                      | Some (TupleOfFields added') \<Rightarrow>
                          map_sum id (\<lambda>t. Some (TupleOfFields t)) (move_fields added' moves')
                      | Some (TupleOfAttributePairs x) \<Rightarrow> Inl AttributeError)
                else Inr added)
      else if moves' \<noteq> []
      then map_sum id (\<lambda>t. Some (TupleOfFields t)) (move_fields fields' moves')
      else Inr None)"

record ApplyChanges =
  ac_adds :: "int \<rightharpoonup> NestedField list"
  ac_updates :: "int \<rightharpoonup> NestedField"
  ac_deletes :: "int set"
  ac_moves :: "int \<rightharpoonup> Move list"

text \<open>
  In \<^verbatim>\<open>_ApplyChanges.struct\<close> the staged update of a field is looked up with
  \<^verbatim>\<open>self._updates.get(field)\<close>: the key is the field object, while the dictionary is keyed
  by field ids, so the lookup finds nothing.
\<close>

definition updates_get_by_field :: "(int \<rightharpoonup> NestedField) \<Rightarrow> NestedField \<Rightarrow> NestedField option" where
  "updates_get_by_field updates' field' = None"

fun ApplyChanges_struct_loop ::
  "ApplyChanges \<Rightarrow> NestedField list \<Rightarrow> IcebergType option list \<Rightarrow> error + (bool \<times> NestedField list)" where
  "ApplyChanges_struct_loop self fields' [] = Inr (False, [])"
| "ApplyChanges_struct_loop self fields' (None # field_results) =
     (case ApplyChanges_struct_loop self (drop 1 fields') field_results of
        Inl e \<Rightarrow> Inl e
      | Inr (has_changes, new_fields) \<Rightarrow> Inr (True, new_fields))"
| "ApplyChanges_struct_loop self [] (Some result_type # field_results) = Inl IndexError"
| "ApplyChanges_struct_loop self (field' # fields') (Some result_type # field_results) =
     (let update' = updates_get_by_field (ac_updates self) field';
          name' = (case update' of Some u \<Rightarrow> name u | None \<Rightarrow> name field');
          doc' = (case update' of Some u \<Rightarrow> doc u | None \<Rightarrow> doc field');
          required' = (case update' of Some u \<Rightarrow> required u | None \<Rightarrow> required field')
      in case ApplyChanges_struct_loop self fields' field_results of
           Inl e \<Rightarrow> Inl e
         | Inr (has_changes, new_fields) \<Rightarrow>
             if name field' = name' \<and> field_type field' = result_type \<and>
                required field' = required' \<and> doc field' = doc'
             then Inr (has_changes, field' # new_fields)
             else Inr (True,
                       NestedField (field_id field') (name field') result_type
                         (required field') (doc field') # new_fields))"

definition ApplyChanges_struct ::
  "ApplyChanges \<Rightarrow> NestedField list \<Rightarrow> IcebergType option list \<Rightarrow> error + IcebergType option" where
  "ApplyChanges_struct self fields' field_results =
     (case ApplyChanges_struct_loop self fields' field_results of
        Inl e \<Rightarrow> Inl e
      | Inr (has_changes, new_fields) \<Rightarrow>
          if has_changes then Inr (Some (StructType new_fields))
          else Inr (Some (StructType fields')))"

definition ApplyChanges_field ::
  "ApplyChanges \<Rightarrow> NestedField \<Rightarrow> IcebergType option \<Rightarrow> error + IcebergType option" where
  "ApplyChanges_field self field' field_result =
     (if field_id field' \<in> ac_deletes self then Inr None
      else if (case ac_updates self (field_id field') of
                 Some update' \<Rightarrow> field_type field' \<noteq> field_type update'
               | None \<Rightarrow> False)
      then Inr (Some (field_type (the (ac_updates self (field_id field')))))
      else (let added = ac_adds self (field_id field');
                moves' = ac_moves self (field_id field')
            in if added \<noteq> None \<or> moves' \<noteq> None
               then (case field_type field' of
                       StructType fields' \<Rightarrow>
                         (case add_and_move_fields fields'
                                 (case added of None \<Rightarrow> [] | Some a \<Rightarrow> a)
                                 (case moves' of None \<Rightarrow> [] | Some m \<Rightarrow> m) of
                            Inl e \<Rightarrow> Inl e
                          | Inr new_fields \<Rightarrow> struct_of_new_fields new_fields field_result)
                     | _ \<Rightarrow> Inl (ValueError ''Cannot add fields to non-struct''))
               else Inr field_result))"

definition ApplyChanges_list ::
  "ApplyChanges \<Rightarrow> int \<Rightarrow> IcebergType \<Rightarrow> bool \<Rightarrow> IcebergType option \<Rightarrow> error + IcebergType option" where
  "ApplyChanges_list self element_id element element_required element_result =
     (case ApplyChanges_field self
             (NestedField element_id ''element'' element element_required None) element_result of
        Inl e \<Rightarrow> Inl e
      | Inr None \<Rightarrow> Inl (ValueError ''Cannot delete element type from list'')
      | Inr (Some element_type) \<Rightarrow> Inr (Some (ListType element_id element_type element_required)))"

definition ApplyChanges_map ::
  "ApplyChanges \<Rightarrow> int \<Rightarrow> IcebergType \<Rightarrow> int \<Rightarrow> IcebergType \<Rightarrow> bool
     \<Rightarrow> IcebergType option \<Rightarrow> IcebergType option \<Rightarrow> error + IcebergType option" where
  "ApplyChanges_map self key_id key_type value_id value_type value_required key_result value_result =
     (if ac_adds self key_id \<noteq> None then Inl (ValueError ''Cannot add fields to map keys'')
      else (case ApplyChanges_field self
                   (NestedField value_id ''value'' value_type value_required None) value_result of
              Inl e \<Rightarrow> Inl e
            | Inr None \<Rightarrow> Inl (ValueError ''Cannot delete value type from map'')
            | Inr (Some value_type') \<Rightarrow>
                Inr (Some (MapType key_id key_type value_id value_type' value_required))))"

definition ApplyChanges_primitive :: "ApplyChanges \<Rightarrow> PrimitiveType \<Rightarrow> error + IcebergType option" where
  "ApplyChanges_primitive self primitive = Inr (Some (Primitive primitive))"

definition ApplyChanges_schema ::
  "ApplyChanges \<Rightarrow> Schema \<Rightarrow> IcebergType option \<Rightarrow> error + IcebergType option" where
  "ApplyChanges_schema self schema struct_result =
     (case (case struct_result of
              None \<Rightarrow> Inr []
            | Some (StructType fields') \<Rightarrow> Inr fields'
            | Some other \<Rightarrow> Inl AttributeError) of
        Inl e \<Rightarrow> Inl e
      | Inr fields' \<Rightarrow>
          (case add_fields fields' (ac_adds self TABLE_ROOT_ID) of
             Inl e \<Rightarrow> Inl e
           | Inr new_fields \<Rightarrow> struct_of_new_fields new_fields struct_result))"

text \<open>Modelled from the spec: \<^verbatim>\<open>visit\<close> of \<^verbatim>\<open>pyiceberg.schema\<close> is not among the source
  files. Section 4.F: the visitor walks the schema bottom-up; each field's type is
  visited before the visitor's \<^verbatim>\<open>field\<close> method sees the field, a struct after its
  fields, a list after its element, a map after its key and value, and the schema after
  its root struct.\<close>

fun visit_type :: "ApplyChanges \<Rightarrow> IcebergType \<Rightarrow> error + IcebergType option"
and visit_fields :: "ApplyChanges \<Rightarrow> NestedField list \<Rightarrow> error + IcebergType option list" where
  "visit_type visitor (Primitive p) = ApplyChanges_primitive visitor p"
| "visit_type visitor (StructType fields') =
     (case visit_fields visitor fields' of
        Inl e \<Rightarrow> Inl e
      | Inr field_results \<Rightarrow> ApplyChanges_struct visitor fields' field_results)"
| "visit_type visitor (ListType element_id element element_required) =
     (case visit_type visitor element of
        Inl e \<Rightarrow> Inl e
      | Inr element_result \<Rightarrow>
          ApplyChanges_list visitor element_id element element_required element_result)"
| "visit_type visitor (MapType key_id key_type value_id value_type value_required) =
     (case visit_type visitor key_type of
        Inl e \<Rightarrow> Inl e
      | Inr key_result \<Rightarrow>
          (case visit_type visitor value_type of
             Inl e \<Rightarrow> Inl e
           | Inr value_result \<Rightarrow>
               ApplyChanges_map visitor key_id key_type value_id value_type value_required
                 key_result value_result))"
| "visit_fields visitor [] = Inr []"
| "visit_fields visitor (NestedField i n t r d # fields') =
     (case visit_type visitor t of
        Inl e \<Rightarrow> Inl e
      | Inr result \<Rightarrow>
          (case ApplyChanges_field visitor (NestedField i n t r d) result of
             Inl e \<Rightarrow> Inl e
           | Inr field_result \<Rightarrow>
               (case visit_fields visitor fields' of
                  Inl e \<Rightarrow> Inl e
                | Inr field_results \<Rightarrow> Inr (field_result # field_results))))"

definition visit :: "Schema \<Rightarrow> ApplyChanges \<Rightarrow> error + IcebergType option" where
  "visit schema visitor =
     (case visit_type visitor (StructType (schema_fields schema)) of
        Inl e \<Rightarrow> Inl e
      | Inr struct_result \<Rightarrow> ApplyChanges_schema visitor schema struct_result)"


subsection \<open>\<^verbatim>\<open>UpdateSchema\<close>\<close>

text \<open>
  A path argument is a string or a tuple of strings. The builder's counter
  \<^verbatim>\<open>itertools.count\<close> is the next id it will return. In every staging method each
  \<^verbatim>\<open>raise\<close> comes before the first assignment to \<^verbatim>\<open>self\<close>, so the result is the exception
  (and the builder is as before) or the builder after the call.
\<close>

datatype path = PathStr string | PathTuple "string list"

definition path_tuple :: "path \<Rightarrow> string list" where
  "path_tuple p = (case p of PathStr s \<Rightarrow> [s] | PathTuple t \<Rightarrow> t)"

text \<open>\<^verbatim>\<open>".".join(path)\<close>.\<close>

fun join_dots :: "string list \<Rightarrow> string" where
  "join_dots [] = []"
| "join_dots [x] = x"
| "join_dots (x # y # rest) = x @ ''.'' @ join_dots (y # rest)"

record UpdateSchema =
  u_table :: Table
  u_schema :: Schema
  u_last_column_id :: int
  u_identifier_field_names :: "string list"
  u_adds :: "int \<rightharpoonup> NestedField list"
  u_updates :: "int \<rightharpoonup> NestedField"
  u_deletes :: "int set"
  u_moves :: "int \<rightharpoonup> Move list"
  u_added_name_to_id :: "string \<rightharpoonup> int"
  u_id_to_parent :: "int \<rightharpoonup> string"
  u_allow_incompatible_changes :: bool
  u_case_sensitive :: bool
  u_transaction :: "Transaction option"

definition UpdateSchema_init ::
  "Schema \<Rightarrow> Table \<Rightarrow> Transaction option \<Rightarrow> bool \<Rightarrow> bool \<Rightarrow> UpdateSchema" where
  "UpdateSchema_init schema table' transaction allow_incompatible_changes' case_sensitive' =
     \<lparr>u_table = table', u_schema = schema,
      u_last_column_id = highest_field_id schema + 1,
      u_identifier_field_names = column_names schema,
      u_adds = Map.empty, u_updates = Map.empty, u_deletes = {}, u_moves = Map.empty,
      u_added_name_to_id = Map.empty, u_id_to_parent = Map.empty,
      u_allow_incompatible_changes = allow_incompatible_changes',
      u_case_sensitive = case_sensitive',
      u_transaction = transaction\<rparr>"

text \<open>\<^verbatim>\<open>Table.update_schema\<close> and \<^verbatim>\<open>Transaction.update_schema\<close>.\<close>

definition Table_update_schema :: "Table \<Rightarrow> error + UpdateSchema" where
  "Table_update_schema self =
     map_sum id (\<lambda>schema. UpdateSchema_init schema self None False True) (Table_schema self)"

definition Transaction_update_schema :: "Transaction \<Rightarrow> error + UpdateSchema" where
  "Transaction_update_schema self =
     map_sum id (\<lambda>schema. UpdateSchema_init schema (t_table self) (Some self) False True)
       (Table_schema (t_table self))"

definition allow_incompatible_changes :: "UpdateSchema \<Rightarrow> UpdateSchema" where
  "allow_incompatible_changes self = self\<lparr>u_allow_incompatible_changes := True\<rparr>"

definition is_struct :: "IcebergType \<Rightarrow> bool" where
  "is_struct t = (case t of StructType fields' \<Rightarrow> True | _ \<Rightarrow> False)"

text \<open>The parent lookup of \<^verbatim>\<open>add_column\<close>: the id of the struct that receives the column.\<close>

definition add_column_parent_id :: "UpdateSchema \<Rightarrow> string list \<Rightarrow> error + int" where
  "add_column_parent_id self parent =
     (if length parent > 0
      then (case find_field (u_schema self) (join_dots parent) (u_case_sensitive self) of
              Inl e \<Rightarrow> Inl e
            | Inr parent_field \<Rightarrow>
                (let parent_field' =
                       (case field_type parent_field of
                          MapType key_id key_type value_id value_type value_required \<Rightarrow>
                            NestedField value_id ''value'' value_type value_required None
                        | ListType element_id element element_required \<Rightarrow>
                            NestedField element_id ''element'' element element_required None
                        | _ \<Rightarrow> parent_field)
                 in if \<not> is_struct (field_type parent_field')
                    then Inl (ValueError ''Cannot add column to non-struct type'')
                    else Inr (field_id parent_field')))
      else Inr TABLE_ROOT_ID)"

definition add_column ::
  "path \<Rightarrow> IcebergType \<Rightarrow> string option \<Rightarrow> bool \<Rightarrow> UpdateSchema \<Rightarrow> error + UpdateSchema" where
  "add_column path' field_type' doc' required' self =
     (let path'' = path_tuple path'
      in if path'' = [] then Inl IndexError
         else if CHR ''.'' \<in> set (last path'')
         then Inl (ValueError ''Cannot add column with ambiguous name'')
         else if required' \<and> \<not> u_allow_incompatible_changes self
         then Inl (ValueError ''Incompatible change: cannot add required column'')
         else (let name' = last path'';
                   parent = butlast path'';
                   full_name = join_dots path''
               in case add_column_parent_id self parent of
                    Inl e \<Rightarrow> Inl e
                  | Inr parent_id \<Rightarrow>
                      (case find_field (u_schema self) full_name (u_case_sensitive self) of
                         Inr existing \<Rightarrow> Inl (ValueError ''Cannot add column, name already exists'')
                       | Inl e \<Rightarrow>
                           (let new_id = u_last_column_id self;
                                (new_type, counter') =
                                    assign_fresh_schema_ids field_type' (u_last_column_id self + 1);
                                field' = NestedField new_id name' new_type required' doc'
                            in Inr (self\<lparr>u_last_column_id := counter',
                                         u_added_name_to_id := (u_added_name_to_id self)(full_name \<mapsto> new_id),
                                         u_adds := (u_adds self)(parent_id \<mapsto>
                                            (case u_adds self parent_id of None \<Rightarrow> [] | Some l \<Rightarrow> l)
                                              @ [field'])\<rparr>)))))"

definition delete_column :: "path \<Rightarrow> UpdateSchema \<Rightarrow> error + UpdateSchema" where
  "delete_column path' self =
     (let full_name = join_dots (path_tuple path')
      in case find_field (u_schema self) full_name (u_case_sensitive self) of
           Inl e \<Rightarrow> Inl e
         | Inr field' \<Rightarrow>
             if u_adds self (field_id field') \<noteq> None
             then Inl (ValueError ''Cannot delete a column that has additions'')
             else if u_updates self (field_id field') \<noteq> None
             then Inl (ValueError ''Cannot delete a column that has updates'')
             else Inr (self\<lparr>u_deletes := insert (field_id field') (u_deletes self)\<rparr>))"

definition rename_column :: "path \<Rightarrow> path \<Rightarrow> UpdateSchema \<Rightarrow> error + UpdateSchema" where
  "rename_column path_from path_to self =
     (let full_name_from = join_dots (path_tuple path_from);
          full_name_to = join_dots (path_tuple path_to)
      in case find_field (u_schema self) full_name_from (u_case_sensitive self) of
           Inl e \<Rightarrow> Inl e
         | Inr from_field \<Rightarrow>
             if field_id from_field \<in> u_deletes self
             then Inl (ValueError ''Cannot rename a column that will be deleted'')
             else (let base = (case u_updates self (field_id from_field) of
                                 Some updated \<Rightarrow> updated
                               | None \<Rightarrow> from_field);
                       self' = self\<lparr>u_updates := (u_updates self)(field_id from_field \<mapsto>
                                 NestedField (field_id base) full_name_to (field_type base)
                                   (required base) (doc base))\<rparr>
                   in if (case path_from of
                            PathStr s \<Rightarrow> s \<in> set (u_identifier_field_names self)
                          | PathTuple t \<Rightarrow> False)
                      then Inr (self'\<lparr>u_identifier_field_names :=
                                  remove1 full_name_from (u_identifier_field_names self) @ [full_name_to]\<rparr>)
                      else Inr self'))"

definition set_column_requirement :: "path \<Rightarrow> bool \<Rightarrow> UpdateSchema \<Rightarrow> error + UpdateSchema" where
  "set_column_requirement path' required' self =
     (let name' = join_dots (path_tuple path')
      in case find_field (u_schema self) name' True of
           Inl e \<Rightarrow> Inl e
         | Inr field' \<Rightarrow>
             if (required field' \<and> required') \<or> (\<not> required field' \<and> \<not> required')
             then Inr self
             else if u_allow_incompatible_changes self \<and> \<not> required'
             then Inl (ValueError ''Cannot change column nullability: optional -> required'')
             else if field_id field' \<in> u_deletes self
             then Inl (ValueError ''Cannot update a column that will be deleted'')
             else (let base = (case u_updates self (field_id field') of
                                 Some updated \<Rightarrow> updated
                               | None \<Rightarrow> field')
                   in Inr (self\<lparr>u_updates := (u_updates self)(field_id field' \<mapsto>
                             NestedField (field_id base) (name base) (field_type base)
                               required' (doc base))\<rparr>)))"

definition require_column :: "path \<Rightarrow> UpdateSchema \<Rightarrow> error + UpdateSchema" where
  "require_column path' self = set_column_requirement path' True self"

definition make_column_optional :: "path \<Rightarrow> UpdateSchema \<Rightarrow> error + UpdateSchema" where
  "make_column_optional path' self = set_column_requirement path' False self"

definition update_column :: "path \<Rightarrow> IcebergType \<Rightarrow> UpdateSchema \<Rightarrow> error + UpdateSchema" where
  "update_column path' field_type' self =
     (let full_name = join_dots (path_tuple path')
      in case find_field (u_schema self) full_name True of
           Inl e \<Rightarrow> Inl e
         | Inr field' \<Rightarrow>
             if field_id field' \<in> u_deletes self
             then Inl (ValueError ''Cannot update a column that will be deleted'')
             else if field_type field' = field_type'
             then Inr self
             else (let base = (case u_updates self (field_id field') of
                                 Some updated \<Rightarrow> updated
                               | None \<Rightarrow> field')
                   in Inr (self\<lparr>u_updates := (u_updates self)(field_id field' \<mapsto>
                             NestedField (field_id base) (name base) field_type'
                               (required base) (doc base))\<rparr>)))"


text \<open>\<^verbatim>\<open>_apply\<close>: the visitor's result becomes the new schema, and every name in
  \<^verbatim>\<open>_identifier_field_names\<close> has to resolve in it.\<close>

definition UpdateSchema_apply :: "UpdateSchema \<Rightarrow> error + Schema" where
  "UpdateSchema_apply self =
     (case visit (u_schema self)
             \<lparr>ac_adds = u_adds self, ac_updates = u_updates self,
              ac_deletes = u_deletes self, ac_moves = u_moves self\<rparr> of
        Inl e \<Rightarrow> Inl e
      | Inr None \<Rightarrow> Inl (ValueError ''Could not apply changes'')
      | Inr (Some (StructType fields')) \<Rightarrow>
          (let schema = Schema_init fields'
           in if list_all (\<lambda>name'. \<not> isl (find_field schema name' True))
                   (u_identifier_field_names self)
              then Inr schema
              else Inl (ValueError ''Cannot add field as an identifier field: not found in current schema or added columns''))
      | Inr (Some other) \<Rightarrow> Inl AttributeError)"

text \<open>\<^verbatim>\<open>commit\<close> returns nothing; the result is the exception, if any, the builder with its
  transaction or its table as the call leaves them, and the catalog's log.\<close>

definition commit ::
  "catalog \<Rightarrow> UpdateSchema \<Rightarrow> CommitTableRequest list
     \<Rightarrow> error option \<times> UpdateSchema \<times> CommitTableRequest list" where
  "commit commit_table self log =
     (case UpdateSchema_apply self of
        Inl e \<Rightarrow> (Some e, self, log)
      | Inr new_schema \<Rightarrow>
          (let updates' = [AddSchemaUpdate new_schema (highest_field_id new_schema),
                           SetCurrentSchemaUpdate (- 1)];
               requirements = [AssertCurrentSchemaId (schema_id (u_schema self))]
           in case u_transaction self of
                Some transaction \<Rightarrow>
                  (case append_updates updates' transaction of
                     (Some e, transaction') \<Rightarrow> (Some e, self\<lparr>u_transaction := Some transaction'\<rparr>, log)
                   | (None, transaction') \<Rightarrow>
                       (case append_requirements requirements transaction' of
                          (result, transaction'') \<Rightarrow>
                            (result, self\<lparr>u_transaction := Some transaction''\<rparr>, log)))
              | None \<Rightarrow>
                  (case do_commit commit_table
                          \<lparr>req_identifier = drop 1 (table_identifier (u_table self)),
                           req_requirements = requirements,
                           req_updates = updates'\<rparr>
                          (u_table self) log of
                     (result, table', log') \<Rightarrow> (result, self\<lparr>u_table := table'\<rparr>, log'))))"

subsection \<open>The specification's wording, for comparison with the code\<close>

text \<open>Section 4.D, step 5: a missing sequence number counts as 0; \<open>S*\<close> is the minimum of
  \<^verbatim>\<open>min_sequence_number\<close> over the manifests with content DATA, 0 when there is none; a
  manifest is retained iff its content is DATA, or its content is DELETES and its
  sequence number is at least \<open>S*\<close>.\<close>

definition missing_as_initial :: "int option \<Rightarrow> int" where
  "missing_as_initial x = (case x of None \<Rightarrow> 0 | Some n \<Rightarrow> n)"

definition spec_min_data_sequence_number :: "ManifestFile list \<Rightarrow> int" where
  "spec_min_data_sequence_number manifests' =
     (let data_manifests = [m \<leftarrow> manifests'. mf_content m = ManifestContent_DATA]
      in if data_manifests = [] then 0
         else Min (set (map (\<lambda>m. missing_as_initial (min_sequence_number m)) data_manifests)))"

definition spec_retained :: "int \<Rightarrow> ManifestFile \<Rightarrow> bool" where
  "spec_retained s_star m =
     (mf_content m = ManifestContent_DATA \<or>
      (mf_content m = ManifestContent_DELETES \<and> missing_as_initial (sequence_number m) \<ge> s_star))"

text \<open>Section 4.D, steps 5 and 6: the entries read for entry filtering are those of the
  manifests that the condition of step 5 retains, each manifest opened with the partition
  evaluator of its spec and the metrics evaluator of the scan.\<close>

definition spec_opened_entries :: "planner_env \<Rightarrow> DataScan \<Rightarrow> ManifestFile list \<Rightarrow> ManifestEntry list" where
  "spec_opened_entries env self manifests' =
     concat (map (\<lambda>manifest.
                    open_manifest manifest
                      (partition_evaluator env self (partition_spec_id manifest))
                      (inclusive_metrics_evaluator env self
                         (map_of (options self) ''include_empty_files'' = Some ''true'')))
               (filter (spec_retained (spec_min_data_sequence_number manifests')) manifests'))"

text \<open>Section 4.F, \<^verbatim>\<open>update_column\<close>: the safe promotions are int to long, float to
  double, and decimal(p, s) to decimal(p', s) with p' at least p.\<close>

definition spec_safe_promotion :: "IcebergType \<Rightarrow> IcebergType \<Rightarrow> bool" where
  "spec_safe_promotion current requested =
     (current = Primitive IntegerType \<and> requested = Primitive LongType \<or>
      current = Primitive FloatType \<and> requested = Primitive DoubleType \<or>
      (case current of
         Primitive (DecimalType p s) \<Rightarrow>
           (case requested of
              Primitive (DecimalType p' s') \<Rightarrow> s' = s \<and> p' \<ge> p
            | _ \<Rightarrow> False)
       | _ \<Rightarrow> False))"

text \<open>The entries that the loop of \<^verbatim>\<open>plan_files\<close> runs over: none without a snapshot.\<close>

definition planned_entries :: "planner_env \<Rightarrow> DataScan \<Rightarrow> ManifestEntry list" where
  "planned_entries env self =
     (case snapshot self of
        None \<Rightarrow> []
      | Some snapshot' \<Rightarrow> surviving_entries env self (pruned_manifests env self snapshot'))"

definition is_data_or_position_delete :: "ManifestEntry \<Rightarrow> bool" where
  "is_data_or_position_delete entry =
     (df_content (data_file entry) = DataFileContent_DATA \<or>
      df_content (data_file entry) = DataFileContent_POSITION_DELETES)"


text \<open>The two exceptions of the loop of \<^verbatim>\<open>plan_files\<close>. Section 7 calls the first
  \<^verbatim>\<open>UnsupportedFeature\<close> and the second \<^verbatim>\<open>InvariantViolation\<close>; the source raises both as
  \<^verbatim>\<open>ValueError\<close>, with these messages.\<close>

definition equality_deletes_error :: error where
  "equality_deletes_error =
     ValueError ''PyIceberg does not yet support equality deletes: https://github.com/apache/iceberg/issues/6568''"

definition unknown_content_error :: error where
  "unknown_content_error = ValueError ''Unknown DataFileContent''"

text \<open>The field that \<^verbatim>\<open>update_column\<close> copies into the staged update: the update staged
  for the field's id so far, or else the field of the schema.\<close>

definition staged_base :: "UpdateSchema \<Rightarrow> NestedField \<Rightarrow> NestedField" where
  "staged_base self field' =
     (case u_updates self (field_id field') of Some updated \<Rightarrow> updated | None \<Rightarrow> field')"

subsection \<open>Example data\<close>

text \<open>Modelled from the spec: \<^verbatim>\<open>_InclusiveMetricsEvaluator\<close> of
  \<^verbatim>\<open>pyiceberg.expressions.visitors\<close> is not among the source files. Section 4.B, for
  \<^verbatim>\<open>EqualTo v\<close>: the lower bound is at most \<open>v\<close> and \<open>v\<close> at most the upper bound;
  missing bounds give true. It is the evaluator of the example environment only.\<close>

definition spec_file_path_evaluator :: "string \<Rightarrow> DataFile \<Rightarrow> bool" where
  "spec_file_path_evaluator v delete_file =
     (case (lower_bound_file_path delete_file, upper_bound_file_path delete_file) of
        (Some lower, Some upper) \<Rightarrow> lower \<le> v \<and> v \<le> upper
      | _ \<Rightarrow> True)"

text \<open>The conjunction of the example environment: it drops \<open>AlwaysTrue\<close> and collapses
  to \<open>AlwaysFalse\<close>.\<close>

definition example_and :: "BooleanExpression \<Rightarrow> BooleanExpression \<Rightarrow> BooleanExpression" where
  "example_and left right =
     (if left = AlwaysFalse \<or> right = AlwaysFalse then AlwaysFalse
      else if left = AlwaysTrue then right
      else if right = AlwaysTrue then left
      else And left right)"

definition example_env :: planner_env where
  "example_env =
     \<lparr>parse = (\<lambda>s. Inr (Predicate s)),
      and_expr = example_and,
      manifest_evaluator = (\<lambda>self spec_id' manifest. True),
      partition_evaluator = (\<lambda>self spec_id' data_file'. True),
      inclusive_metrics_evaluator = (\<lambda>self include_empty_files data_file'. True),
      file_path_evaluator = spec_file_path_evaluator\<rparr>"

text \<open>Scenario 2 of section 8: a data file with sequence number 5, a positional delete
  with sequence number 7 whose bounds contain the data file's path, and one with
  sequence number 4.\<close>

definition example_data_entry :: ManifestEntry where
  "example_data_entry =
     \<lparr>data_sequence_number = Some 5,
      data_file = \<lparr>df_content = DataFileContent_DATA, file_path = ''a/1.parquet'',
                   file_size_in_bytes = 1024,
                   lower_bound_file_path = None, upper_bound_file_path = None\<rparr>\<rparr>"

definition example_delete_entry :: "int \<Rightarrow> string \<Rightarrow> ManifestEntry" where
  "example_delete_entry seq path' =
     \<lparr>data_sequence_number = Some seq,
      data_file = \<lparr>df_content = DataFileContent_POSITION_DELETES, file_path = path',
                   file_size_in_bytes = 64,
                   lower_bound_file_path = Some ''a/0.parquet'',
                   upper_bound_file_path = Some ''a/2.parquet''\<rparr>\<rparr>"

definition example_entry_with_content :: "DataFileContent \<Rightarrow> ManifestEntry" where
  "example_entry_with_content content' =
     \<lparr>data_sequence_number = Some 6,
      data_file = \<lparr>df_content = content', file_path = ''a/x.parquet'',
                   file_size_in_bytes = 64,
                   lower_bound_file_path = None, upper_bound_file_path = None\<rparr>\<rparr>"

definition example_manifest ::
  "ManifestContent \<Rightarrow> int option \<Rightarrow> int option \<Rightarrow> ManifestEntry list \<Rightarrow> ManifestFile" where
  "example_manifest content' seq min_seq entries =
     \<lparr>mf_content = content', partition_spec_id = 0, sequence_number = seq,
      min_sequence_number = min_seq, fetch_manifest_entry = entries\<rparr>"

definition example_manifests :: "ManifestFile list" where
  "example_manifests =
     [example_manifest ManifestContent_DATA (Some 5) (Some 5) [example_data_entry],
      example_manifest ManifestContent_DELETES (Some 7) (Some 4)
        [example_delete_entry 7 ''d/7.parquet'', example_delete_entry 4 ''d/4.parquet'']]"

text \<open>Manifests with a delete manifest older than the data (sequence number 3) and a
  newer one (sequence number 7).\<close>

definition example_manifests_old_delete :: "ManifestFile list" where
  "example_manifests_old_delete =
     [example_manifest ManifestContent_DATA (Some 5) (Some 5) [example_data_entry],
      example_manifest ManifestContent_DELETES (Some 3) (Some 3)
        [example_delete_entry 3 ''d/3.parquet''],
      example_manifest ManifestContent_DELETES (Some 7) (Some 7)
        [example_delete_entry 7 ''d/7.parquet'']]"

definition example_schema :: Schema where
  "example_schema =
     \<lparr>schema_fields = [NestedField 1 ''id'' (Primitive IntegerType) True None,
                       NestedField 2 ''data'' (Primitive StringType) False None],
      schema_id = 0, identifier_field_ids = []\<rparr>"

definition example_snapshot :: "int \<Rightarrow> ManifestFile list \<Rightarrow> Snapshot" where
  "example_snapshot i ms = \<lparr>s_snapshot_id = i, s_schema_id = None, s_manifests = ms\<rparr>"

text \<open>Scenario 6 of section 8: branch main at snapshot 42 and stage at snapshot 17.\<close>

definition example_table_with :: "ManifestFile list \<Rightarrow> Table" where
  "example_table_with ms =
     \<lparr>table_identifier = [''catalog'', ''db'', ''t''],
      metadata =
        \<lparr>schemas = [example_schema], current_schema_id = 0,
         snapshots = [example_snapshot 17 [], example_snapshot 42 ms],
         current_snapshot_id = Some 42,
         refs = [''main'' \<mapsto> \<lparr>r_snapshot_id = 42\<rparr>, ''stage'' \<mapsto> \<lparr>r_snapshot_id = 17\<rparr>]\<rparr>,
      metadata_location = ''s3://bucket/t/metadata/v1.json''\<rparr>"

definition example_table :: Table where
  "example_table = example_table_with example_manifests"

text \<open>A table with a snapshot whose id is 0, referenced by the name stage.\<close>

definition example_table_zero :: Table where
  "example_table_zero =
     \<lparr>table_identifier = [''catalog'', ''db'', ''t''],
      metadata =
        \<lparr>schemas = [example_schema], current_schema_id = 0,
         snapshots = [example_snapshot 0 [], example_snapshot 42 []],
         current_snapshot_id = Some 42,
         refs = [''main'' \<mapsto> \<lparr>r_snapshot_id = 42\<rparr>, ''stage'' \<mapsto> \<lparr>r_snapshot_id = 0\<rparr>]\<rparr>,
      metadata_location = ''s3://bucket/t/metadata/v1.json''\<rparr>"

definition example_catalog :: catalog where
  "example_catalog request =
     Inr \<lparr>resp_metadata = metadata example_table,
          resp_metadata_location = ''s3://bucket/t/metadata/v2.json''\<rparr>"


definition example_tasks :: "FileScanTask list" where
  "example_tasks =
     [\<lparr>task_file = data_file example_data_entry,
       delete_files = {data_file (example_delete_entry 7 ''d/7.parquet'')},
       start = 0, task_length = 1024\<rparr>]"

text \<open>Tables whose current snapshot has one manifest, with a data entry followed by an
  equality delete, and with an entry of unknown content followed by an equality delete.\<close>

definition example_table_equality :: Table where
  "example_table_equality =
     example_table_with
       [example_manifest ManifestContent_DATA (Some 5) (Some 5)
          [example_data_entry, example_entry_with_content DataFileContent_EQUALITY_DELETES]]"

definition example_table_unknown_first :: Table where
  "example_table_unknown_first =
     example_table_with
       [example_manifest ManifestContent_DATA (Some 5) (Some 5)
          [example_entry_with_content DataFileContent_unknown,
           example_entry_with_content DataFileContent_EQUALITY_DELETES]]"

text \<open>Scenario 3 of section 8: the builder that \<^verbatim>\<open>table.update_schema()\<close> returns for the
  schema with the fields 1: id: int and 2: data: string, then
  \<^verbatim>\<open>rename_column("data", "payload")\<close> and \<^verbatim>\<open>add_column("extra", LongType())\<close>.\<close>

definition example_builder :: UpdateSchema where
  "example_builder = UpdateSchema_init example_schema example_table None False True"

definition example_rename_add :: "error + UpdateSchema" where
  "example_rename_add =
     (case rename_column (PathStr ''data'') (PathStr ''payload'') example_builder of
        Inl e \<Rightarrow> Inl e
      | Inr renamed \<Rightarrow> add_column (PathStr ''extra'') (Primitive LongType) None False renamed)"

text \<open>Scenario 4 of section 8: a builder for a schema whose field id is a long.\<close>

definition example_long_schema :: Schema where
  "example_long_schema =
     \<lparr>schema_fields = [NestedField 1 ''id'' (Primitive LongType) True None],
      schema_id = 0, identifier_field_ids = []\<rparr>"

definition example_long_builder :: UpdateSchema where
  "example_long_builder = UpdateSchema_init example_long_schema example_table None False True"

section \<open>Properties\<close>

subsection \<open>Sequence-number discipline\<close>

lemma py_or_initial: "py_or x INITIAL_SEQUENCE_NUMBER = missing_as_initial x"
  by (simp add: py_or_def INITIAL_SEQUENCE_NUMBER_def missing_as_initial_def split: option.splits)

lemma fold_min_Min:
  "fold (\<lambda>y m. if y < m then y else m) xs (x::int) = Min (insert x (set xs))"
proof (induction xs arbitrary: x)
  case Nil
  then show ?case by simp
next
  case (Cons y ys)
  have "(if y < x then y else x) = min y x" by (simp add: min_def)
  then have "fold (\<lambda>y m. if y < m then y else m) (y # ys) x = Min (insert (min y x) (set ys))"
    using Cons.IH[of "min y x"] by simp
  also have "\<dots> = Min (insert x (set (y # ys)))"
  proof (cases "set ys = {}")
    case True
    then show ?thesis by (simp add: min.commute)
  next
    case False
    then show ?thesis by (simp add: min.assoc min.commute min.left_commute)
  qed
  finally show ?case .
qed

lemma py_min_Min: "xs \<noteq> [] \<Longrightarrow> py_min xs = Inr (Min (set xs))"
  by (cases xs) (simp_all add: py_min_def fold_min_Min)

lemma min_data_file_sequence_number_spec:
  "min_data_file_sequence_number manifests' = spec_min_data_sequence_number manifests'"
proof (cases "[m \<leftarrow> manifests'. mf_content m = ManifestContent_DATA] = []")
  case True
  then show ?thesis
    by (simp add: min_data_file_sequence_number_def spec_min_data_sequence_number_def py_min_def
        INITIAL_SEQUENCE_NUMBER_def)
next
  case False
  then have ne: "map (\<lambda>m. py_or (min_sequence_number m) INITIAL_SEQUENCE_NUMBER)
                   [m \<leftarrow> manifests'. mf_content m = ManifestContent_DATA] \<noteq> []"
    by simp
  show ?thesis
    using False py_min_Min[OF ne]
    by (simp add: min_data_file_sequence_number_def spec_min_data_sequence_number_def py_or_initial)
qed

lemma retained_manifests_spec:
  "retained_manifests manifests' =
     filter (spec_retained (spec_min_data_sequence_number manifests')) manifests'"
  using min_data_file_sequence_number_spec[of manifests']
  by (simp add: retained_manifests_def check_sequence_number_def[abs_def]
      spec_retained_def[abs_def] py_or_initial)

lemma surviving_entries_spec:
  "surviving_entries env self manifests' = spec_opened_entries env self manifests'"
  by (simp add: surviving_entries_def spec_opened_entries_def retained_manifests_spec)

text \<open>
  Claim C2. For every list of manifests that survived manifest pruning, the minimum that
  \<^verbatim>\<open>plan_files\<close> computes with \<^verbatim>\<open>_min_data_file_sequence_number\<close> is \<open>S*\<close>, the minimum
  \<^verbatim>\<open>min_sequence_number\<close> over the manifests with content DATA (0 when there is none, a
  missing number counting as 0); the manifests it keeps for entry filtering are exactly
  those whose content is DATA, or whose content is DELETES and whose sequence number
  (0 when missing) is at least \<open>S*\<close>; the entries it filters are the entries of these
  manifests and of no other; and \<^verbatim>\<open>plan_files\<close> builds its tasks from exactly these
  entries of the pruned manifests of its snapshot.
\<close>

theorem C2_sequence_number_discipline:
  "min_data_file_sequence_number manifests' = spec_min_data_sequence_number manifests' \<and>
   retained_manifests manifests' =
     filter (spec_retained (spec_min_data_sequence_number manifests')) manifests' \<and>
   surviving_entries env self manifests' = spec_opened_entries env self manifests' \<and>
   plan_files env self =
     (case snapshot self of
        None \<Rightarrow> Inr []
      | Some snapshot' \<Rightarrow>
          (case collect_entries
                  (spec_opened_entries env self (pruned_manifests env self snapshot')) [] [] of
             Inl e \<Rightarrow> Inl e
           | Inr (data_entries, positional_delete_entries) \<Rightarrow>
               Inr (map (\<lambda>data_entry.
                           FileScanTask_init (data_file data_entry)
                             (Some (match_deletes_to_datafile env data_entry positional_delete_entries))
                             None None)
                      data_entries)))"
proof (intro conjI)
  show "min_data_file_sequence_number manifests' = spec_min_data_sequence_number manifests'"
    by (rule min_data_file_sequence_number_spec)
  show "retained_manifests manifests' =
          filter (spec_retained (spec_min_data_sequence_number manifests')) manifests'"
    by (rule retained_manifests_spec)
  show "surviving_entries env self manifests' = spec_opened_entries env self manifests'"
    by (rule surviving_entries_spec)
  show "plan_files env self =
     (case snapshot self of
        None \<Rightarrow> Inr []
      | Some snapshot' \<Rightarrow>
          (case collect_entries
                  (spec_opened_entries env self (pruned_manifests env self snapshot')) [] [] of
             Inl e \<Rightarrow> Inl e
           | Inr (data_entries, positional_delete_entries) \<Rightarrow>
               Inr (map (\<lambda>data_entry.
                           FileScanTask_init (data_file data_entry)
                             (Some (match_deletes_to_datafile env data_entry positional_delete_entries))
                             None None)
                      data_entries)))"
    by (cases "snapshot self") (simp_all add: plan_files_def surviving_entries_spec)
qed

subsection \<open>Committing a transaction\<close>

text \<open>
  Claim C8. A transaction without staged updates does not call the catalog (the log of
  requests is as before) and returns its table as it is, metadata and metadata location
  included; a transaction with at least one staged update sends one commit request, with
  the staged requirements and updates.
\<close>

theorem C8_commit_transaction_without_updates:
  "(t_updates self = [] \<longrightarrow>
      commit_transaction commit_table self log = (Inr (t_table self), log)) \<and>
   (t_updates self \<noteq> [] \<longrightarrow>
      snd (commit_transaction commit_table self log) =
        log @ [\<lparr>req_identifier = drop 1 (table_identifier (t_table self)),
                 req_requirements = t_requirements self,
                 req_updates = t_updates self\<rparr>])"
  by (simp add: commit_transaction_def do_commit_def split: sum.splits)

theorem C8_commit_transaction_witness:
  "commit_transaction example_catalog (Transaction_init example_table None (Some [AssertCreate])) []
     = (Inr example_table, []) \<and>
   snd (commit_transaction example_catalog
          (Transaction_init example_table (Some [SetLocationUpdate ''s3://other'']) None) [])
     = [\<lparr>req_identifier = [''db'', ''t''], req_requirements = [],
         req_updates = [SetLocationUpdate ''s3://other'']\<rparr>]"
  using C8_commit_transaction_without_updates
          [of "Transaction_init example_table None (Some [AssertCreate])" example_catalog "[]"]
        C8_commit_transaction_without_updates
          [of "Transaction_init example_table (Some [SetLocationUpdate ''s3://other'']) None"
              example_catalog "[]"]
  by (simp add: Transaction_init_def example_table_def example_table_with_def)


subsection \<open>Evaluating the examples\<close>

lemmas example_defs =
  example_env_def example_data_entry_def example_delete_entry_def example_entry_with_content_def
  example_manifest_def example_manifests_def example_schema_def example_snapshot_def
  example_table_with_def example_table_def example_table_zero_def example_catalog_def
  example_table_equality_def example_table_unknown_first_def

lemmas scan_defs =
  snapshot_def scan_def truthy_def current_snapshot_def snapshot_by_id_def snapshot_by_name_def
  py_next_def use_ref_def update_def

lemmas planner_defs =
  plan_files_def planned_entries_def surviving_entries_def pruned_manifests_def
  retained_manifests_def check_sequence_number_def min_data_file_sequence_number_def
  py_min_def py_or_def INITIAL_SEQUENCE_NUMBER_def open_manifest_def entry_key_def
  match_deletes_to_datafile_def py_set_of_files_def FileScanTask_init_def
  spec_file_path_evaluator_def

lemmas find_defs =
  find_field_def same_name_def path_tuple_def UpdateSchema_init_def highest_field_id_def
  column_names_def

text \<open>The delete manifest with sequence number 3 is older than the data (\<open>S*\<close> is 5): it
  is not opened, the one with sequence number 7 is.\<close>

theorem C2_sequence_number_discipline_witness:
  "min_data_file_sequence_number example_manifests_old_delete = 5 \<and>
   retained_manifests example_manifests_old_delete =
     [example_manifest ManifestContent_DATA (Some 5) (Some 5) [example_data_entry],
      example_manifest ManifestContent_DELETES (Some 7) (Some 7)
        [example_delete_entry 7 ''d/7.parquet'']] \<and>
   surviving_entries example_env (scan (example_table_with example_manifests_old_delete))
       example_manifests_old_delete =
     [example_data_entry, example_delete_entry 7 ''d/7.parquet''] \<and>
   plan_files example_env (scan (example_table_with example_manifests_old_delete)) =
     Inr example_tasks"
  using C2_sequence_number_discipline
          [of example_manifests_old_delete example_env
              "scan (example_table_with example_manifests_old_delete)"]
  by (simp add: spec_opened_entries_def spec_min_data_sequence_number_def spec_retained_def
      missing_as_initial_def example_manifests_old_delete_def planner_defs scan_defs
      example_defs example_tasks_def)


subsection \<open>Matching deletes to data files\<close>

lemma set_SortedList_add: "set (SortedList_add key x xs) = insert x (set xs)"
  by (induction xs) auto

lemma sorted_SortedList_add:
  "sorted (map key xs) \<Longrightarrow> sorted (map key (SortedList_add key x xs))"
  by (induction xs) (auto simp: set_SortedList_add)

text \<open>On an ascending list the slice from \<^verbatim>\<open>bisect_right\<close> on holds exactly the values
  with a strictly greater key.\<close>

lemma drop_bisect_right:
  "sorted (map key xs) \<Longrightarrow>
   drop (bisect_right key xs x) xs = filter (\<lambda>y. key x < key y) xs"
proof (induction xs)
  case Nil
  then show ?case by simp
next
  case (Cons y ys)
  show ?case
  proof (cases "key y \<le> key x")
    case True
    with Cons show ?thesis by simp
  next
    case False
    from Cons.prems have "\<forall>z \<in> set ys. key y \<le> key z" by simp
    with False have "\<forall>z \<in> set ys. key x < key z" by auto
    then have "filter (\<lambda>z. key x < key z) ys = ys" by simp
    with False show ?thesis by simp
  qed
qed

text \<open>The loop keeps the positional deletes ascending by key and sorts every entry into
  one of the two collections.\<close>

lemma collect_entries_Inr:
  "collect_entries es data pos = Inr (data', pos') \<Longrightarrow> sorted (map entry_key pos) \<Longrightarrow>
   sorted (map entry_key pos') \<and>
   set pos' = set pos \<union> {e \<in> set es. df_content (data_file e) = DataFileContent_POSITION_DELETES} \<and>
   data' = data @ [e \<leftarrow> es. df_content (data_file e) = DataFileContent_DATA]"
proof (induction es arbitrary: data pos)
  case Nil
  then show ?case by simp
next
  case (Cons e es)
  show ?case
  proof (cases "df_content (data_file e)")
    case DataFileContent_DATA
    with Cons.prems have "collect_entries es (data @ [e]) pos = Inr (data', pos')" by simp
    from Cons.IH[OF this Cons.prems(2)] DataFileContent_DATA show ?thesis by auto
  next
    case DataFileContent_POSITION_DELETES
    with Cons.prems have
      "collect_entries es data (SortedList_add entry_key e pos) = Inr (data', pos')" by simp
    from Cons.IH[OF this sorted_SortedList_add[OF Cons.prems(2)]] DataFileContent_POSITION_DELETES
    show ?thesis by (auto simp: set_SortedList_add)
  next
    case DataFileContent_EQUALITY_DELETES
    with Cons.prems show ?thesis by simp
  next
    case DataFileContent_unknown
    with Cons.prems show ?thesis by simp
  qed
qed

lemma fold_keep_first_subset:
  "set (fold (\<lambda>f kept. if file_path f \<in> file_path ` set kept then kept else kept @ [f])
          files kept0) \<subseteq> set kept0 \<union> set files"
proof (induction files arbitrary: kept0)
  case Nil
  then show ?case by simp
next
  case (Cons f files)
  show ?case
    using Cons.IH[of kept0] Cons.IH[of "kept0 @ [f]"] by auto
qed

lemma py_set_of_files_subset: "py_set_of_files files \<subseteq> set files"
  using fold_keep_first_subset[of files "[]"] by (simp add: py_set_of_files_def)

lemma match_deletes_to_datafile_subset:
  assumes "sorted (map entry_key pos)"
  shows "match_deletes_to_datafile env d pos \<subseteq>
           data_file ` {e \<in> set pos. entry_key d < entry_key e \<and>
                          file_path_evaluator env (file_path (data_file d)) (data_file e)}"
proof -
  let ?rel = "drop (bisect_right entry_key pos d) pos"
  let ?ev = "\<lambda>e. file_path_evaluator env (file_path (data_file d)) (data_file e)"
  have rel: "?rel = filter (\<lambda>y. entry_key d < entry_key y) pos"
    by (rule drop_bisect_right[OF assms])
  have "match_deletes_to_datafile env d pos \<subseteq> set (map data_file (filter ?ev ?rel))"
    using py_set_of_files_subset[of "map data_file (filter ?ev ?rel)"]
    by (cases ?rel) (simp_all add: match_deletes_to_datafile_def Let_def)
  also have "set (map data_file (filter ?ev ?rel)) =
               data_file ` {e \<in> set pos. entry_key d < entry_key e \<and> ?ev e}"
    unfolding rel by auto
  finally show ?thesis .
qed

lemma entry_key_present:
  "data_sequence_number e = Some n \<Longrightarrow> entry_key e = n"
  by (simp add: entry_key_def py_or_def INITIAL_SEQUENCE_NUMBER_def)

text \<open>
  Claim C1. When \<^verbatim>\<open>plan_files\<close> returns tasks, there is one task for each surviving data
  entry, in order, and every delete file in the task's \<^verbatim>\<open>delete_files\<close> is the file of a
  surviving positional-delete entry whose data sequence number is strictly greater than
  the data entry's and that the inclusive metrics evaluator for
  \<^verbatim>\<open>file_path = data_file.file_path\<close> accepts. The sequence numbers are compared as the
  sorted list's key does, a missing one counting as \<^verbatim>\<open>INITIAL_SEQUENCE_NUMBER\<close>; when both
  are present the numbers themselves are compared.
\<close>

theorem C1_delete_applicability:
  assumes "plan_files env self = Inr tasks"
  shows "list_all2
           (\<lambda>data_entry task.
              task_file task = data_file data_entry \<and>
              (\<forall>delete_file \<in> delete_files task.
                 \<exists>delete_entry \<in> set (planned_entries env self).
                   df_content (data_file delete_entry) = DataFileContent_POSITION_DELETES \<and>
                   data_file delete_entry = delete_file \<and>
                   entry_key delete_entry > entry_key data_entry \<and>
                   (\<forall>a b. data_sequence_number delete_entry = Some a \<and>
                          data_sequence_number data_entry = Some b \<longrightarrow> a > b) \<and>
                   file_path_evaluator env (file_path (data_file data_entry)) delete_file))
           [entry \<leftarrow> planned_entries env self.
              df_content (data_file entry) = DataFileContent_DATA]
           tasks"
proof (cases "snapshot self")
  case None
  with assms show ?thesis by (simp add: plan_files_def planned_entries_def)
next
  case (Some sn)
  let ?es = "surviving_entries env self (pruned_manifests env self sn)"
  have pe: "planned_entries env self = ?es" using Some by (simp add: planned_entries_def)
  from assms Some obtain data pos where
    ce: "collect_entries ?es [] [] = Inr (data, pos)" and
    tasks: "tasks = map (\<lambda>d. FileScanTask_init (data_file d)
                     (Some (match_deletes_to_datafile env d pos)) None None) data"
    by (auto simp: plan_files_def split: sum.splits)
  from collect_entries_Inr[OF ce] have
    sorted: "sorted (map entry_key pos)" and
    pos: "set pos = {e \<in> set ?es. df_content (data_file e) = DataFileContent_POSITION_DELETES}" and
    data: "data = [e \<leftarrow> ?es. df_content (data_file e) = DataFileContent_DATA]"
    by auto
  have key: "\<exists>delete_entry \<in> set ?es.
                df_content (data_file delete_entry) = DataFileContent_POSITION_DELETES \<and>
                data_file delete_entry = delete_file \<and>
                entry_key delete_entry > entry_key d \<and>
                (\<forall>a b. data_sequence_number delete_entry = Some a \<and>
                       data_sequence_number d = Some b \<longrightarrow> a > b) \<and>
                file_path_evaluator env (file_path (data_file d)) delete_file"
    if "delete_file \<in> match_deletes_to_datafile env d pos" for d delete_file
  proof -
    from that match_deletes_to_datafile_subset[OF sorted, of env d] obtain e where
      e: "e \<in> set pos" "entry_key d < entry_key e" "data_file e = delete_file"
         "file_path_evaluator env (file_path (data_file d)) (data_file e)"
      by auto
    from e(1) pos have "e \<in> set ?es"
      "df_content (data_file e) = DataFileContent_POSITION_DELETES" by auto
    with e show ?thesis by (auto simp: entry_key_present)
  qed
  show ?thesis
    unfolding tasks pe data[symmetric]
    using key by (simp add: list_all2_map2 list_all2_same FileScanTask_init_def)
qed

theorem C1_delete_applicability_witness:
  "plan_files example_env (scan example_table) = Inr example_tasks \<and>
   list_all2
     (\<lambda>data_entry task.
        task_file task = data_file data_entry \<and>
        (\<forall>delete_file \<in> delete_files task.
           \<exists>delete_entry \<in> set (planned_entries example_env (scan example_table)).
             df_content (data_file delete_entry) = DataFileContent_POSITION_DELETES \<and>
             data_file delete_entry = delete_file \<and>
             entry_key delete_entry > entry_key data_entry \<and>
             (\<forall>a b. data_sequence_number delete_entry = Some a \<and>
                    data_sequence_number data_entry = Some b \<longrightarrow> a > b) \<and>
             file_path_evaluator example_env (file_path (data_file data_entry)) delete_file))
     [entry \<leftarrow> planned_entries example_env (scan example_table).
        df_content (data_file entry) = DataFileContent_DATA]
     example_tasks"
proof -
  have h: "plan_files example_env (scan example_table) = Inr example_tasks"
    by (simp add: planner_defs scan_defs example_defs example_tasks_def)
  from h C1_delete_applicability[OF h] show ?thesis by (rule conjI)
qed

subsection \<open>Entries that planning does not support\<close>

lemma collect_entries_first_offender:
  "(case find (\<lambda>e. \<not> is_data_or_position_delete e) es of
      None \<Rightarrow> \<not> isl (collect_entries es data pos)
    | Some entry \<Rightarrow>
        collect_entries es data pos =
          Inl (if df_content (data_file entry) = DataFileContent_EQUALITY_DELETES
               then equality_deletes_error else unknown_content_error))"
proof (induction es arbitrary: data pos)
  case Nil
  then show ?case by simp
next
  case (Cons e es)
  show ?case
    using Cons.IH[of "data @ [e]" pos] Cons.IH[of data "SortedList_add entry_key e pos"]
    by (cases "df_content (data_file e)")
       (simp_all add: is_data_or_position_delete_def equality_deletes_error_def
          unknown_content_error_def split: option.splits)
qed

text \<open>
  Claim C9. The loop of \<^verbatim>\<open>plan_files\<close> aborts at the first surviving entry whose content
  is neither DATA nor POSITION_DELETES: with the equality-delete error
  (\<^verbatim>\<open>UnsupportedFeature\<close>) when that entry's content is EQUALITY_DELETES, with the
  unknown-content error (\<^verbatim>\<open>InvariantViolation\<close>) when its content is none of the three
  kinds. No tasks are returned in either case, and planning returns tasks when there is
  no such entry.
\<close>

theorem C9_first_unsupported_entry:
  "(case find (\<lambda>entry. \<not> is_data_or_position_delete entry) (planned_entries env self) of
      None \<Rightarrow> \<not> isl (plan_files env self)
    | Some entry \<Rightarrow>
        plan_files env self =
          Inl (if df_content (data_file entry) = DataFileContent_EQUALITY_DELETES
               then equality_deletes_error else unknown_content_error))"
proof (cases "snapshot self")
  case None
  then show ?thesis by (simp add: plan_files_def planned_entries_def)
next
  case (Some sn)
  show ?thesis
    using collect_entries_first_offender
            [of "surviving_entries env self (pruned_manifests env self sn)" "[]" "[]"] Some
    by (auto simp: plan_files_def planned_entries_def split: option.splits sum.splits)
qed

lemma planned_entries_equality:
  "planned_entries example_env (scan example_table_equality) =
     [example_data_entry, example_entry_with_content DataFileContent_EQUALITY_DELETES]"
  by (simp add: planner_defs scan_defs example_defs)

lemma planned_entries_unknown_first:
  "planned_entries example_env (scan example_table_unknown_first) =
     [example_entry_with_content DataFileContent_unknown,
      example_entry_with_content DataFileContent_EQUALITY_DELETES]"
  by (simp add: planner_defs scan_defs example_defs)

theorem C9_first_unsupported_entry_witness:
  "plan_files example_env (scan example_table_equality) = Inl equality_deletes_error \<and>
   plan_files example_env (scan example_table_unknown_first) = Inl unknown_content_error"
  using C9_first_unsupported_entry[of example_env "scan example_table_equality"]
        C9_first_unsupported_entry[of example_env "scan example_table_unknown_first"]
  by (simp add: planned_entries_equality planned_entries_unknown_first
      is_data_or_position_delete_def example_data_entry_def example_entry_with_content_def)

text \<open>With the content of every surviving entry among the three members of
  \<^verbatim>\<open>DataFileContent\<close>, a surviving equality delete makes planning abort with the
  equality-delete error.\<close>

lemma plan_files_equality_delete:
  assumes "entry \<in> set (planned_entries env self)"
      and "df_content (data_file entry) = DataFileContent_EQUALITY_DELETES"
      and "\<forall>e \<in> set (planned_entries env self).
             df_content (data_file e) \<noteq> DataFileContent_unknown"
  shows "plan_files env self = Inl equality_deletes_error"
proof -
  let ?P = "\<lambda>e. \<not> is_data_or_position_delete e"
  from assms(1) obtain sn where sn: "snapshot self = Some sn"
    by (cases "snapshot self") (simp_all add: planned_entries_def)
  let ?es = "surviving_entries env self (pruned_manifests env self sn)"
  have es: "planned_entries env self = ?es" using sn by (simp add: planned_entries_def)
  from assms(2) have "?P entry" by (simp add: is_data_or_position_delete_def)
  with assms(1) have "\<exists>e \<in> set ?es. ?P e" unfolding es by blast
  then obtain x where x: "find ?P ?es = Some x"
    by (cases "find ?P ?es") (auto simp: find_None_iff)
  then have "x \<in> set ?es" "?P x"
    by (auto simp: find_Some_iff in_set_conv_nth)
  with assms(3) es have "df_content (data_file x) = DataFileContent_EQUALITY_DELETES"
    by (cases "df_content (data_file x)") (auto simp: is_data_or_position_delete_def)
  with x collect_entries_first_offender[of ?es "[]" "[]"] sn show ?thesis
    by (simp add: plan_files_def)
qed

subsection \<open>Resolving the snapshot of a scan\<close>

lemma snapshot_by_id_Some:
  assumes "snapshot_by_id t i = Some sn"
  shows "s_snapshot_id sn = i"
proof -
  let ?xs = "[s \<leftarrow> snapshots (metadata t). s_snapshot_id s = i]"
  from assms have "?xs \<noteq> [] \<and> hd ?xs = sn"
    by (cases ?xs) (simp_all add: snapshot_by_id_def py_next_def)
  then have "sn \<in> set ?xs" by (metis hd_in_set)
  then show ?thesis by simp
qed

text \<open>
  Where the snapshot ids are not 0 the code resolves a ref as intended: for a table
  whose refs map a name to the id of one of its snapshots, \<^verbatim>\<open>scan().use_ref(name)\<close> returns
  the scan with that snapshot id, and the scan resolves to that snapshot. \<^verbatim>\<open>use_ref\<close> fails
  when the scan already has a snapshot id, and when the name resolves to no snapshot. A
  scan without a snapshot id resolves to the current snapshot.
\<close>

lemma use_ref_resolves_nonzero:
  "(refs (metadata t) name' = Some ref \<and> r_snapshot_id ref \<noteq> 0 \<and>
    snapshot_by_id t (r_snapshot_id ref) = Some sn \<longrightarrow>
      use_ref name' (scan t) = Inr ((scan t)\<lparr>snapshot_id := Some (r_snapshot_id ref)\<rparr>) \<and>
      snapshot ((scan t)\<lparr>snapshot_id := Some (r_snapshot_id ref)\<rparr>) = Some sn) \<and>
   (snapshot_id s = Some i \<and> i \<noteq> 0 \<longrightarrow>
      use_ref name' s = Inl (ValueError ''Cannot override ref, already set snapshot id'')) \<and>
   (snapshot_by_name (table s) name' = None \<longrightarrow> isl (use_ref name' s)) \<and>
   (snapshot_id s = None \<longrightarrow> snapshot s = current_snapshot (table s))"
proof (intro conjI impI)
  assume a: "refs (metadata t) name' = Some ref \<and> r_snapshot_id ref \<noteq> 0 \<and>
             snapshot_by_id t (r_snapshot_id ref) = Some sn"
  then have id: "s_snapshot_id sn = r_snapshot_id ref" by (auto dest: snapshot_by_id_Some)
  from a id show "use_ref name' (scan t) = Inr ((scan t)\<lparr>snapshot_id := Some (r_snapshot_id ref)\<rparr>)"
    by (simp add: use_ref_def update_def scan_def truthy_def snapshot_by_name_def)
  from a show "snapshot ((scan t)\<lparr>snapshot_id := Some (r_snapshot_id ref)\<rparr>) = Some sn"
    by (simp add: snapshot_def scan_def truthy_def)
next
  assume "snapshot_id s = Some i \<and> i \<noteq> 0"
  then show "use_ref name' s = Inl (ValueError ''Cannot override ref, already set snapshot id'')"
    by (simp add: use_ref_def truthy_def)
next
  assume "snapshot_by_name (table s) name' = None"
  then show "isl (use_ref name' s)" by (simp add: use_ref_def)
next
  assume "snapshot_id s = None"
  then show "snapshot s = current_snapshot (table s)" by (simp add: snapshot_def truthy_def)
qed

text \<open>Scenario 6 of section 8: \<^verbatim>\<open>use_ref("stage")\<close> resolves to snapshot 17.\<close>

lemma use_ref_stage_example:
  "use_ref ''stage'' (scan example_table) = Inr ((scan example_table)\<lparr>snapshot_id := Some 17\<rparr>) \<and>
   snapshot ((scan example_table)\<lparr>snapshot_id := Some 17\<rparr>) = Some (example_snapshot 17 []) \<and>
   use_ref ''stage'' ((scan example_table)\<lparr>snapshot_id := Some 42\<rparr>)
     = Inl (ValueError ''Cannot override ref, already set snapshot id'') \<and>
   isl (use_ref ''nightly'' (scan example_table)) \<and>
   snapshot (scan example_table) = current_snapshot example_table"
  using use_ref_resolves_nonzero
          [of example_table "''stage''" "\<lparr>r_snapshot_id = 17\<rparr>" "example_snapshot 17 []"
              "(scan example_table)\<lparr>snapshot_id := Some 42\<rparr>" 42]
        use_ref_resolves_nonzero
          [of example_table "''nightly''" "\<lparr>r_snapshot_id = 17\<rparr>" "example_snapshot 17 []"
              "scan example_table" 42]
  by (simp add: example_defs scan_defs)

text \<open>
  Claim C7 fails on the code at a ref to the snapshot with id 0. The name stage refers
  to that snapshot, and \<^verbatim>\<open>snapshot_by_name\<close> finds it; \<^verbatim>\<open>use_ref("stage")\<close> returns a scan with
  snapshot id 0; but \<^verbatim>\<open>snapshot()\<close> tests \<^verbatim>\<open>if self.snapshot_id:\<close>, takes the id 0 for no id
  and resolves the scan to the current snapshot 42, not to the snapshot the name refers
  to. For the same reason \<^verbatim>\<open>use_ref\<close> on that scan, which has a snapshot id, does not fail.
\<close>

theorem C7_use_ref_snapshot_zero:
  "refs (metadata example_table_zero) ''stage'' = Some \<lparr>r_snapshot_id = 0\<rparr> \<and>
   snapshot_by_name example_table_zero ''stage'' = Some (example_snapshot 0 []) \<and>
   use_ref ''stage'' (scan example_table_zero)
     = Inr ((scan example_table_zero)\<lparr>snapshot_id := Some 0\<rparr>) \<and>
   snapshot ((scan example_table_zero)\<lparr>snapshot_id := Some 0\<rparr>) = Some (example_snapshot 42 []) \<and>
   example_snapshot 42 [] \<noteq> example_snapshot 0 [] \<and>
   \<not> isl (use_ref ''main'' ((scan example_table_zero)\<lparr>snapshot_id := Some 0\<rparr>))"
  by (simp add: example_defs scan_defs)

subsection \<open>Filtering a scan\<close>

text \<open>On a scan whose \<^verbatim>\<open>__dict__\<close> holds the seven attributes only, \<^verbatim>\<open>filter\<close> returns the
  scan with the conjunction as its row filter and every other attribute as before.\<close>

lemma filter_scan_fresh:
  "\<not> partition_filters_cached self \<Longrightarrow> parse_row_filter env expr = Inr parsed \<Longrightarrow>
   filter_scan env expr self =
     Inr (self\<lparr>row_filter := and_expr env (row_filter self) parsed\<rparr>)"
  by (simp add: filter_scan_def update_def)

text \<open>
  Claim C10 fails on the code at a scan that has planned its files. After
  \<^verbatim>\<open>plan_files\<close> over a snapshot with a manifest, the scan's \<^verbatim>\<open>__dict__\<close> holds the cached
  \<^verbatim>\<open>partition_filters\<close>; \<^verbatim>\<open>filter\<close> passes it to \<^verbatim>\<open>DataScan.__init__\<close> through \<^verbatim>\<open>update\<close> and
  the call raises \<^verbatim>\<open>TypeError\<close> instead of returning a new scan, although the filter
  string parses.
\<close>

theorem C10_filter_after_plan_files:
  "partition_filters_cached (after_plan_files (scan example_table)) \<and>
   parse_row_filter example_env (Str ''id > 4'') = Inr (Predicate ''id > 4'') \<and>
   filter_scan example_env (Str ''id > 4'') (after_plan_files (scan example_table))
     = Inl (TypeError ''__init__() got an unexpected keyword argument partition_filters'')"
  by (simp add: example_defs scan_defs after_plan_files_def filter_scan_def parse_row_filter_def)

subsection \<open>Staging updates and requirements\<close>

lemma append_updates_new_kind:
  assumes "type_of_update new_update \<notin> type_of_update ` set (t_updates self)"
  shows "append_updates [new_update] self =
           (None, self\<lparr>t_updates := t_updates self @ [new_update]\<rparr>)"
proof -
  have "\<not> list_ex (\<lambda>update. type_of_update update = type_of_update new_update) (t_updates self)"
    using assms by (auto simp: list_ex_iff image_iff)
  then show ?thesis by (simp add: append_updates_def)
qed

lemma append_updates_staged_kind:
  "type_of_update new_update \<in> type_of_update ` set (t_updates self) \<Longrightarrow>
   append_updates [new_update] self =
     (Some (ValueError ''Updates in a single commit need to be unique, duplicate''), self)"
  by (auto simp: append_updates_def list_ex_iff)

text \<open>With a staged requirement, \<^verbatim>\<open>_append_requirements\<close> rejects every requirement.\<close>

lemma append_requirements_nonempty:
  "t_requirements self \<noteq> [] \<Longrightarrow> new_requirements \<noteq> [] \<Longrightarrow>
   append_requirements new_requirements self =
     (Some (ValueError ''Requirements in a single commit need to be unique, duplicate''), self)"
  by (cases "t_requirements self"; cases new_requirements) (simp_all add: append_requirements_def)

text \<open>
  Claim C5 fails on the code. A transaction holds the requirement \<^verbatim>\<open>AssertTableUUID\<close>;
  appending \<^verbatim>\<open>AssertCurrentSchemaId\<close>, whose kind is not staged, raises the duplicate
  error and leaves the transaction as it was, where the claim says it is appended. And
  one call of \<^verbatim>\<open>_append_updates\<close> with two updates of the same kind stages both.
\<close>

theorem C5_append_requirement_of_new_kind:
  "type_of_requirement (AssertCurrentSchemaId 0)
     \<notin> type_of_requirement ` set (t_requirements
           (Transaction_init example_table None (Some [AssertTableUUID ''uuid'']))) \<and>
   append_requirements [AssertCurrentSchemaId 0]
       (Transaction_init example_table None (Some [AssertTableUUID ''uuid'']))
     = (Some (ValueError ''Requirements in a single commit need to be unique, duplicate''),
        Transaction_init example_table None (Some [AssertTableUUID ''uuid''])) \<and>
   append_updates [SetLocationUpdate ''s3://a'', SetLocationUpdate ''s3://b'']
       (Transaction_init example_table None None)
     = (None, Transaction_init example_table
                (Some [SetLocationUpdate ''s3://a'', SetLocationUpdate ''s3://b'']) None)"
  by (simp add: append_requirements_def append_updates_def Transaction_init_def)


subsection \<open>Changing the type of a column\<close>

text \<open>
  Claim C3, as amended. For every schema field at a path, not staged for deletion, and
  every requested type other than the field's type, \<^verbatim>\<open>update_column\<close> succeeds and stages
  the field with the requested type, whether or not the type is a safe promotion and
  whatever \<^verbatim>\<open>allow_incompatible_changes\<close> is; when the requested type is the field's type
  the call changes nothing.
\<close>

theorem C3_update_column_stages_any_type:
  assumes "find_field (u_schema self) (join_dots (path_tuple p)) True = Inr field'"
      and "field_id field' \<notin> u_deletes self"
  shows "(T \<noteq> field_type field' \<longrightarrow>
            update_column p T self =
              Inr (self\<lparr>u_updates := (u_updates self)(field_id field' \<mapsto>
                     NestedField (field_id (staged_base self field')) (name (staged_base self field'))
                       T (required (staged_base self field')) (doc (staged_base self field')))\<rparr>)) \<and>
         (T = field_type field' \<longrightarrow> update_column p T self = Inr self)"
  using assms by (auto simp: update_column_def Let_def staged_base_def)

lemma find_id_long:
  "find_field (u_schema example_long_builder) (join_dots (path_tuple (PathStr ''id''))) True
     = Inr (NestedField 1 ''id'' (Primitive LongType) True None)"
  by (simp add: example_long_builder_def example_long_schema_def find_defs)

theorem C3_update_column_witness:
  "update_column (PathStr ''id'') (Primitive StringType) example_long_builder =
     Inr (example_long_builder\<lparr>u_updates :=
            [1 \<mapsto> NestedField 1 ''id'' (Primitive StringType) True None]\<rparr>) \<and>
   update_column (PathStr ''id'') (Primitive LongType) example_long_builder =
     Inr example_long_builder"
proof -
  have d: "field_id (NestedField 1 ''id'' (Primitive LongType) True None)
             \<notin> u_deletes example_long_builder"
    by (simp add: example_long_builder_def UpdateSchema_init_def)
  have u: "u_updates example_long_builder = Map.empty"
    by (simp add: example_long_builder_def UpdateSchema_init_def)
  show ?thesis
    using C3_update_column_stages_any_type[OF find_id_long d, of "Primitive StringType"]
          C3_update_column_stages_any_type[OF find_id_long d, of "Primitive LongType"]
    by (simp add: staged_base_def u)
qed

text \<open>The claim as stated fails (scenario 4 of section 8): the field id is a long, int is
  not a safe promotion of long, \<^verbatim>\<open>allow_incompatible_changes\<close> is not set, and
  \<^verbatim>\<open>update_column("id", IntegerType())\<close> stages the change.\<close>

theorem C3_update_column_counterexample:
  "find_field (u_schema example_long_builder) ''id'' True
     = Inr (NestedField 1 ''id'' (Primitive LongType) True None) \<and>
   Primitive IntegerType \<noteq> Primitive LongType \<and>
   \<not> spec_safe_promotion (Primitive LongType) (Primitive IntegerType) \<and>
   \<not> u_allow_incompatible_changes example_long_builder \<and>
   update_column (PathStr ''id'') (Primitive IntegerType) example_long_builder =
     Inr (example_long_builder\<lparr>u_updates :=
            [1 \<mapsto> NestedField 1 ''id'' (Primitive IntegerType) True None]\<rparr>)"
  by (simp add: example_long_builder_def example_long_schema_def find_defs update_column_def
      spec_safe_promotion_def)

subsection \<open>Changing the nullability of a column\<close>

text \<open>The parts of claim C6 that hold: a new required column needs
  \<^verbatim>\<open>allow_incompatible_changes\<close>, and a change to the nullability the field already has
  changes nothing.\<close>

lemma add_column_required_without_flag:
  "path_tuple p \<noteq> [] \<Longrightarrow> CHR ''.'' \<notin> set (last (path_tuple p)) \<Longrightarrow>
   \<not> u_allow_incompatible_changes self \<Longrightarrow>
   add_column p t d True self = Inl (ValueError ''Incompatible change: cannot add required column'')"
  by (simp add: add_column_def Let_def)

lemma set_column_requirement_noop:
  "find_field (u_schema self) (join_dots (path_tuple p)) True = Inr field' \<Longrightarrow>
   required field' = r \<Longrightarrow> set_column_requirement p r self = Inr self"
  by (auto simp: set_column_requirement_def Let_def)

text \<open>
  Claim C6 fails on the code. The field data is optional and
  \<^verbatim>\<open>allow_incompatible_changes\<close> is not set, yet \<^verbatim>\<open>require_column("data")\<close> stages the field
  as required instead of raising. The guard of \<^verbatim>\<open>_set_column_requirement\<close> tests
  \<^verbatim>\<open>self._allow_incompatible_changes and not required\<close>: it rejects the change from required
  to optional when the flag is set, with the message of the change from optional to
  required.
\<close>

theorem C6_require_column_without_flag:
  "find_field (u_schema example_builder) ''data'' True
     = Inr (NestedField 2 ''data'' (Primitive StringType) False None) \<and>
   \<not> u_allow_incompatible_changes example_builder \<and>
   require_column (PathStr ''data'') example_builder =
     Inr (example_builder\<lparr>u_updates :=
            [2 \<mapsto> NestedField 2 ''data'' (Primitive StringType) True None]\<rparr>) \<and>
   make_column_optional (PathStr ''id'') (allow_incompatible_changes example_builder) =
     Inl (ValueError ''Cannot change column nullability: optional -> required'')"
  by (simp add: example_builder_def example_schema_def find_defs require_column_def
      make_column_optional_def set_column_requirement_def allow_incompatible_changes_def)

subsection \<open>Renaming and adding a column, then committing\<close>

lemma example_rename_add_value:
  "example_rename_add =
     Inr (example_builder
            \<lparr>u_last_column_id := 4,
             u_identifier_field_names := [''id'', ''payload''],
             u_adds := [TABLE_ROOT_ID \<mapsto> [NestedField 3 ''extra'' (Primitive LongType) False None]],
             u_updates := [2 \<mapsto> NestedField 2 ''payload'' (Primitive StringType) False None],
             u_added_name_to_id := [''extra'' \<mapsto> 3]\<rparr>)"
  by (simp add: example_rename_add_def example_builder_def example_schema_def find_defs
      rename_column_def add_column_def add_column_parent_id_def assign_fresh_schema_ids_def Let_def
      TABLE_ROOT_ID_def)

lemma example_apply_value:
  "UpdateSchema_apply (projr example_rename_add) =
     Inl (TypeError ''tuple expected at most 1 argument'')"
  by (simp add: example_rename_add_value example_builder_def example_schema_def
      UpdateSchema_init_def UpdateSchema_apply_def visit_def ApplyChanges_schema_def
      ApplyChanges_struct_def ApplyChanges_field_def ApplyChanges_primitive_def
      updates_get_by_field_def add_fields_def py_tuple_of_args_def TABLE_ROOT_ID_def)

text \<open>
  Claim C4 fails on the code. From the schema with the fields 1: id and 2: data, the
  rename and the add are staged (the update for id 2 carries the name payload, the
  added field extra has id 3), but \<^verbatim>\<open>commit\<close> raises \<^verbatim>\<open>TypeError\<close> in \<^verbatim>\<open>_apply\<close>:
  \<^verbatim>\<open>_add_fields\<close> calls \<^verbatim>\<open>tuple\<close> with three arguments. No request reaches the catalog and
  nothing is staged in a transaction.
\<close>

theorem C4_rename_add_commit:
  "Table_update_schema example_table = Inr example_builder \<and>
   \<not> isl example_rename_add \<and>
   u_updates (projr example_rename_add) 2
     = Some (NestedField 2 ''payload'' (Primitive StringType) False None) \<and>
   u_adds (projr example_rename_add) TABLE_ROOT_ID
     = Some [NestedField 3 ''extra'' (Primitive LongType) False None] \<and>
   commit example_catalog (projr example_rename_add) [] =
     (Some (TypeError ''tuple expected at most 1 argument''), projr example_rename_add, [])"
proof -
  have "Table_update_schema example_table = Inr example_builder"
    by (simp add: Table_update_schema_def Table_schema_def py_next_def example_builder_def
        example_table_def example_table_with_def example_schema_def)
  moreover have "commit example_catalog (projr example_rename_add) [] =
     (Some (TypeError ''tuple expected at most 1 argument''), projr example_rename_add, [])"
    by (simp add: commit_def example_apply_value)
  ultimately show ?thesis
    by (simp add: example_rename_add_value)
qed

end
